theory Spec2Isabelle
  imports Complex_Main
begin

section \<open>Python values and faults\<close>

text \<open>
  The loosely typed values the processors handle (parsed X12 models, decoded JSON
  payloads, the fields extracted from them): \<open>None\<close>, booleans, integers, strings,
  lists and string-keyed dictionaries. A dictionary is an association list read with
  \<open>map_of\<close>. Floating-point members of a payload are outside this type.
\<close>

datatype pyval =
    PNone
  | PBool bool
  | PInt int
  | PStr string
  | PList "pyval list"
  | PDict "(string \<times> pyval) list"

section \<open>models.py\<close>

datatype BaseMessageType = JSON | TEXT | XML

datatype EdiMessageType = FHIR | HL7 | X12

datatype EdiOperations =
  ANALYZE | ENRICH | VALIDATE | TRANSLATE | TRANSMIT | COMPLETE | CANCEL | FAIL

record EdiMessageMetadata =
  baseMessageType :: BaseMessageType
  messageType :: EdiMessageType
  specificationVersion :: string
  implementationVersions :: "string list option"
  messageSize :: int
  recordCount :: int
  checksum :: string

text \<open>
  Durations are Python floats; they are modelled as reals. The only arithmetic on them is
  the five-term sum of \<open>EdiProcessingMetrics.__init__\<close>.
\<close>

record EdiProcessingMetrics =
  analyzeTime :: real
  enrichTime :: real
  validateTime :: real
  translateTime :: real
  transmitTime :: real
  totalTime :: real

text \<open>
  \<open>EdiProcessingMetrics.__init__\<close>: the keyword arguments are stored by the base
  initialiser, then \<open>totalTime\<close> is overwritten with the sum of the five stage times
  (whatever \<open>totalTime\<close> argument was passed).
\<close>

definition EdiProcessingMetrics_init ::
  "real \<Rightarrow> real \<Rightarrow> real \<Rightarrow> real \<Rightarrow> real \<Rightarrow> real \<Rightarrow> EdiProcessingMetrics" where
  "EdiProcessingMetrics_init a e v t x tot =
     (let self = \<lparr>analyzeTime = a, enrichTime = e, validateTime = v,
                   translateTime = t, transmitTime = x, totalTime = tot\<rparr>
      in self\<lparr>totalTime := analyzeTime self + enrichTime self + validateTime self
                              + translateTime self + transmitTime self\<rparr>)"

text \<open>
  \<open>EdiResult\<close>. Each entry of \<open>errors\<close> is a dictionary; the only ones the code builds
  are \<open>{"msg": text}\<close>.
\<close>

record EdiResult =
  metadata :: "EdiMessageMetadata option"
  result_metrics :: "EdiProcessingMetrics option"
  inputMessage :: string
  result_operations :: "EdiOperations list"
  errors :: "(string \<times> string) list list"

section \<open>workflows.py: the workflow\<close>

datatype wstate =
  Init | Analyzed | Enriched | Validated | Translated | Transmitted
  | Completed | Cancelled | Failed

datatype transition =
  T_analyze | T_enrich | T_validate | T_translate | T_transmit
  | T_complete | T_cancel | T_fail

text \<open>\<open>EdiWorkflow.transitions\<close>: the source states and the target of each transition.\<close>

fun sources :: "transition \<Rightarrow> wstate list" where
  "sources T_analyze = [Init]"
| "sources T_enrich = [Analyzed]"
| "sources T_validate = [Analyzed, Enriched]"
| "sources T_translate = [Analyzed, Enriched, Validated]"
| "sources T_transmit = [Analyzed, Enriched, Validated, Translated]"
| "sources T_complete = [Analyzed, Enriched, Validated, Translated, Transmitted]"
| "sources T_cancel = [Init, Analyzed, Enriched, Validated, Translated, Transmitted]"
| "sources T_fail = [Init, Analyzed, Enriched, Validated, Translated, Transmitted]"

fun target :: "transition \<Rightarrow> wstate" where
  "target T_analyze = Analyzed"
| "target T_enrich = Enriched"
| "target T_validate = Validated"
| "target T_translate = Translated"
| "target T_transmit = Transmitted"
| "target T_complete = Completed"
| "target T_cancel = Cancelled"
| "target T_fail = Failed"

fun transition_name :: "transition \<Rightarrow> string" where
  "transition_name T_analyze = ''analyze''"
| "transition_name T_enrich = ''enrich''"
| "transition_name T_validate = ''validate''"
| "transition_name T_translate = ''translate''"
| "transition_name T_transmit = ''transmit''"
| "transition_name T_complete = ''complete''"
| "transition_name T_cancel = ''cancel''"
| "transition_name T_fail = ''fail''"

fun state_name :: "wstate \<Rightarrow> string" where
  "state_name Init = ''init''"
| "state_name Analyzed = ''analyzed''"
| "state_name Enriched = ''enriched''"
| "state_name Validated = ''validated''"
| "state_name Translated = ''translated''"
| "state_name Transmitted = ''transmitted''"
| "state_name Completed = ''completed''"
| "state_name Cancelled = ''cancelled''"
| "state_name Failed = ''failed''"

text \<open>
  The faults of the model. \<open>InvalidTransitionError\<close> is the one the workflow library
  raises from a transition called in a state outside its sources; it carries the requested
  transition and the current state, which its message names (\<open>invalid_transition_message\<close>).
  \<open>ValueError\<close> carries its message. \<open>IndexError\<close>, \<open>KeyError\<close> and \<open>TypeError\<close> are
  the interpreter's subscripting faults. \<open>CollaboratorError\<close> is any fault raised by an
  external collaborator (metadata analyzer, model reader, HTTP client, event channel),
  with its text.
\<close>

datatype py_error =
    InvalidTransitionError transition wstate
  | ValueError string
  | IndexError
  | KeyError
  | TypeError
  | UnboundLocalError
  | AttributeError
  | FileNotFoundError
  | CollaboratorError string

definition quote :: "string \<Rightarrow> string" where
  "quote s = [CHR 0x27] @ s @ [CHR 0x27]"

definition invalid_transition_message :: "transition \<Rightarrow> wstate \<Rightarrow> string" where
  "invalid_transition_message tr st =
     ''Transition '' @ quote (transition_name tr) @ '' isn'' @ [CHR 0x27]
       @ ''t available from state '' @ quote (state_name st) @ ''.''"

datatype 'a outcome = Raise py_error | Return 'a

section \<open>workflows.py: the processor\<close>

record NatsClient =
  is_connected :: bool
  is_closed :: bool
  subscriptions :: "string list"

text \<open>
  One record holds the attributes of \<open>EdiProcessor\<close> and those its subclass
  \<open>EdiEligibilityCheckProcessor\<close> adds; \<open>state\<close> is the workflow state.
\<close>

record EdiProcessor =
  state :: wstate
  input_message :: string
  meta_data :: "EdiMessageMetadata option"
  metrics :: EdiProcessingMetrics
  operations :: "EdiOperations list"
  transmit_data :: pyval
  transmit_result :: "string option"
  transmit_status_code :: "int option"
  message_received :: bool
  subscriber_last :: pyval
  subscriber_first :: pyval
  subscriber_id :: pyval
  insurer_name :: pyval
  insurer_id :: pyval
  provider_name :: pyval
  provider_id :: pyval
  transaction_id :: pyval
  nats_client :: "NatsClient option"

text \<open>\<open>EdiEligibilityCheckProcessor.__init__\<close>, which ends in \<open>EdiProcessor.__init__\<close>.\<close>

definition new_processor :: "string \<Rightarrow> EdiProcessor" where
  "new_processor msg =
     \<lparr>state = Init, input_message = msg, meta_data = None,
      metrics = EdiProcessingMetrics_init 0 0 0 0 0 0,
      operations = [], transmit_data = PNone, transmit_result = None,
      transmit_status_code = None, message_received = False,
      subscriber_last = PNone, subscriber_first = PNone, subscriber_id = PNone,
      insurer_name = PNone, insurer_id = PNone, provider_name = PNone,
      provider_id = PNone, transaction_id = PNone, nats_client = None\<rparr>"

text \<open>
  The \<open>@transition\<close> wrapper of the workflow library around a plain method: the source
  state is checked first; then the method runs; if it returns, the state becomes the
  transition's target. A fault of the method leaves the state where it was.
\<close>

definition transition_call ::
  "transition \<Rightarrow> (EdiProcessor \<Rightarrow> 'a outcome \<times> EdiProcessor) \<Rightarrow> EdiProcessor
     \<Rightarrow> 'a outcome \<times> EdiProcessor" where
  "transition_call tr impl p =
     (if state p \<notin> set (sources tr) then (Raise (InvalidTransitionError tr (state p)), p)
      else (case impl p of
              (Raise e, p') \<Rightarrow> (Raise e, p')
            | (Return r, p') \<Rightarrow> (Return r, p'\<lparr>state := target tr\<rparr>)))"

text \<open>
  The same wrapper around an \<open>async def\<close> method, called and awaited at once (as every
  caller in the repository does): calling the method only creates the coroutine, so the
  wrapper sets the target state before the awaited body runs.
\<close>

definition transition_call_async ::
  "transition \<Rightarrow> (EdiProcessor \<Rightarrow> 'a outcome \<times> EdiProcessor) \<Rightarrow> EdiProcessor
     \<Rightarrow> 'a outcome \<times> EdiProcessor" where
  "transition_call_async tr impl p =
     (if state p \<notin> set (sources tr) then (Raise (InvalidTransitionError tr (state p)), p)
      else impl (p\<lparr>state := target tr\<rparr>))"

text \<open>
  \<open>analyze\<close>. The metadata analyzer is an external collaborator, a parameter here: a
  function of the input message that returns the metadata or raises. \<open>elapsed\<close> is the
  difference of the two clock readings.
\<close>

definition analyze_impl ::
  "(string \<Rightarrow> py_error + EdiMessageMetadata) \<Rightarrow> real \<Rightarrow> EdiProcessor
     \<Rightarrow> unit outcome \<times> EdiProcessor" where
  "analyze_impl analyzer elapsed p =
     (case analyzer (input_message p) of
        Inl e \<Rightarrow> (Raise e, p)
      | Inr md \<Rightarrow>
          (Return (),
           p\<lparr>meta_data := Some md,
             metrics := (metrics p)\<lparr>analyzeTime := elapsed\<rparr>,
             operations := operations p @ [ANALYZE]\<rparr>))"

definition analyze ::
  "(string \<Rightarrow> py_error + EdiMessageMetadata) \<Rightarrow> real \<Rightarrow> EdiProcessor
     \<Rightarrow> unit outcome \<times> EdiProcessor" where
  "analyze analyzer elapsed = transition_call T_analyze (analyze_impl analyzer elapsed)"

definition enrich_impl :: "real \<Rightarrow> EdiProcessor \<Rightarrow> unit outcome \<times> EdiProcessor" where
  "enrich_impl elapsed p =
     (Return (), p\<lparr>metrics := (metrics p)\<lparr>enrichTime := elapsed\<rparr>,
                   operations := operations p @ [ENRICH]\<rparr>)"

definition enrich :: "real \<Rightarrow> EdiProcessor \<Rightarrow> unit outcome \<times> EdiProcessor" where
  "enrich elapsed = transition_call T_enrich (enrich_impl elapsed)"

definition validate_impl :: "real \<Rightarrow> EdiProcessor \<Rightarrow> unit outcome \<times> EdiProcessor" where
  "validate_impl elapsed p =
     (Return (), p\<lparr>metrics := (metrics p)\<lparr>validateTime := elapsed\<rparr>,
                   operations := operations p @ [VALIDATE]\<rparr>)"

definition validate :: "real \<Rightarrow> EdiProcessor \<Rightarrow> unit outcome \<times> EdiProcessor" where
  "validate elapsed = transition_call T_validate (validate_impl elapsed)"

text \<open>\<open>EdiProcessor.translate\<close>, the base class's stage (the subclass overrides it).\<close>

definition translate_impl :: "real \<Rightarrow> EdiProcessor \<Rightarrow> unit outcome \<times> EdiProcessor" where
  "translate_impl elapsed p =
     (Return (), p\<lparr>metrics := (metrics p)\<lparr>translateTime := elapsed\<rparr>,
                   operations := operations p @ [TRANSLATE]\<rparr>)"

definition translate :: "real \<Rightarrow> EdiProcessor \<Rightarrow> unit outcome \<times> EdiProcessor" where
  "translate elapsed = transition_call_async T_translate (translate_impl elapsed)"

text \<open>
  \<open>transmit\<close>. The HTTP client is a parameter: a function of the posted resource that
  returns the response's text and status code, or raises.
\<close>

definition transmit_impl ::
  "(pyval \<Rightarrow> py_error + string \<times> int) \<Rightarrow> real \<Rightarrow> EdiProcessor
     \<Rightarrow> unit outcome \<times> EdiProcessor" where
  "transmit_impl post elapsed p =
     (case post (transmit_data p) of
        Inl e \<Rightarrow> (Raise e, p)
      | Inr (text, status_code) \<Rightarrow>
          (Return (),
           p\<lparr>transmit_result := Some text,
             transmit_status_code := Some status_code,
             metrics := (metrics p)\<lparr>transmitTime := elapsed\<rparr>,
             operations := operations p @ [TRANSMIT]\<rparr>))"

definition transmit ::
  "(pyval \<Rightarrow> py_error + string \<times> int) \<Rightarrow> real \<Rightarrow> EdiProcessor
     \<Rightarrow> unit outcome \<times> EdiProcessor" where
  "transmit post elapsed = transition_call_async T_transmit (transmit_impl post elapsed)"

text \<open>
  \<open>_create_edi_result\<close>. The metrics are passed to \<open>EdiResult\<close> as a dictionary
  (\<open>self.metrics.dict()\<close>); validating the field builds a new \<open>EdiProcessingMetrics\<close>
  from it, which runs \<open>__init__\<close> again. The operations are copied into the result.
\<close>

definition create_edi_result :: "EdiProcessor \<Rightarrow> EdiResult" where
  "create_edi_result p =
     (let m = metrics p in
      \<lparr>metadata = meta_data p,
       result_metrics = Some (EdiProcessingMetrics_init (analyzeTime m) (enrichTime m)
          (validateTime m) (translateTime m) (transmitTime m) (totalTime m)),
       inputMessage = input_message p,
       result_operations = operations p,
       errors = []\<rparr>)"

definition complete_impl :: "EdiProcessor \<Rightarrow> EdiResult outcome \<times> EdiProcessor" where
  "complete_impl p =
     (let p' = p\<lparr>operations := operations p @ [COMPLETE]\<rparr>
      in (Return (create_edi_result p'), p'))"

definition complete :: "EdiProcessor \<Rightarrow> EdiResult outcome \<times> EdiProcessor" where
  "complete = transition_call T_complete complete_impl"

definition cancel_impl :: "EdiProcessor \<Rightarrow> EdiResult outcome \<times> EdiProcessor" where
  "cancel_impl p =
     (let p' = p\<lparr>operations := operations p @ [CANCEL]\<rparr>
      in (Return (create_edi_result p'), p'))"

definition cancel :: "EdiProcessor \<Rightarrow> EdiResult outcome \<times> EdiProcessor" where
  "cancel = transition_call T_cancel cancel_impl"

text \<open>
  \<open>fail(reason, exception=None)\<close>. The exception argument is represented by what the
  method uses of it: \<open>None\<close> when absent, otherwise its \<open>str()\<close>.
\<close>

definition fail_impl ::
  "string \<Rightarrow> string option \<Rightarrow> EdiProcessor \<Rightarrow> EdiResult outcome \<times> EdiProcessor" where
  "fail_impl reason exception p =
     (let p' = p\<lparr>operations := operations p @ [FAIL]\<rparr>;
          edi_result = create_edi_result p';
          edi_result = edi_result\<lparr>errors := errors edi_result @ [[(''msg'', reason)]]\<rparr>;
          edi_result = (case exception of
                          None \<Rightarrow> edi_result
                        | Some s \<Rightarrow> edi_result\<lparr>errors := errors edi_result @ [[(''msg'', s)]]\<rparr>)
      in (Return edi_result, p'))"

definition fail ::
  "string \<Rightarrow> string option \<Rightarrow> EdiProcessor \<Rightarrow> EdiResult outcome \<times> EdiProcessor" where
  "fail reason exception = transition_call T_fail (fail_impl reason exception)"

definition stage_sum :: "EdiProcessingMetrics \<Rightarrow> real" where
  "stage_sum m = analyzeTime m + enrichTime m + validateTime m + translateTime m + transmitTime m"

section \<open>x12.py\<close>

text \<open>
  \<open>X12Config\<close>, with the defaults of the class (\<open>get_config\<close>). The settings can be
  overridden from the environment, so the reader takes the configuration as a value.
\<close>

record X12Config =
  isa_element_separator :: int
  isa_repetition_separator :: int
  isa_segment_length :: int
  isa_segment_terminator :: int
  x12_reader_buffer_size :: int

definition get_config :: X12Config where
  "get_config =
     \<lparr>isa_element_separator = 3, isa_repetition_separator = 82, isa_segment_length = 106,
      isa_segment_terminator = 105, x12_reader_buffer_size = 1024000\<rparr>"

text \<open>
  Python's primitives on sequences. \<open>py_read n s\<close> is \<open>stream.read(n)\<close> on a text stream
  whose unread text is \<open>s\<close>: the characters read and the text left (a negative size reads
  everything). \<open>py_index\<close> is subscripting by an integer (a negative index counts from
  the end, an index out of range raises \<open>IndexError\<close>). \<open>py_split sep s\<close> is
  \<open>s.split(sep)\<close> for a separator that is not empty, \<open>py_rstrip chars s\<close> is
  \<open>s.rstrip(chars)\<close> and \<open>py_join sep xs\<close> is \<open>sep.join(xs)\<close>.
\<close>

definition py_read :: "int \<Rightarrow> string \<Rightarrow> string \<times> string" where
  "py_read n s = (if n < 0 then (s, []) else (take (nat n) s, drop (nat n) s))"

definition py_index :: "'a list \<Rightarrow> int \<Rightarrow> py_error + 'a" where
  "py_index xs i =
     (if 0 \<le> i \<and> i < int (length xs) then Inr (xs ! nat i)
      else if i < 0 \<and> - int (length xs) \<le> i then Inr (xs ! nat (int (length xs) + i))
      else Inl IndexError)"

fun py_split :: "string \<Rightarrow> string \<Rightarrow> string list" where
  "py_split sep [] = [[]]"
| "py_split sep (c # cs) =
     (if sep \<noteq> [] \<and> take (length sep) (c # cs) = sep
      then [] # py_split sep (drop (length sep) (c # cs))
      else (case py_split sep cs of [] \<Rightarrow> [[c]] | x # xs \<Rightarrow> (c # x) # xs))"

definition py_rstrip :: "string \<Rightarrow> string \<Rightarrow> string" where
  "py_rstrip chars s = rev (dropWhile (\<lambda>c. c \<in> set chars) (rev s))"

fun py_join :: "string \<Rightarrow> string list \<Rightarrow> string" where
  "py_join sep [] = []"
| "py_join sep [x] = x"
| "py_join sep (x # y # ys) = x @ sep @ py_join sep (y # ys)"

text \<open>
  The reader as the \<open>with\<close> statement binds it, that is after \<open>__init__\<close> and a
  successful \<open>__enter__\<close>: the input, the cached configuration, the text of the opened
  stream and the three delimiters. Every method that reads the stream rewinds it first,
  so the stream is its text.
\<close>

record X12SegmentReader =
  x12_input :: string
  config :: X12Config
  x12_stream :: string
  element_separator :: char
  repetition_separator :: char
  segment_terminator :: char

definition is_x12_data :: "string \<Rightarrow> bool" where
  "is_x12_data input_data = (if input_data \<noteq> [] then take 3 input_data = ''ISA'' else False)"

text \<open>
  The files are a parameter: \<open>expand_path\<close> is the expansion of \<open>~\<close> and of
  environment variables in a path, and \<open>read_file path\<close> is the text of the regular file
  the path names, as a text-mode \<open>open\<close> reads it, \<open>None\<close> when there is no such file
  or it is a directory.
\<close>

record filesystem =
  expand_path :: "string \<Rightarrow> string"
  read_file :: "string \<Rightarrow> string option"

definition is_x12_file :: "filesystem \<Rightarrow> X12Config \<Rightarrow> string \<Rightarrow> bool" where
  "is_x12_file fs cfg file_path =
     (if file_path = [] then False
      else (case read_file fs (expand_path fs file_path) of
              None \<Rightarrow> False
            | Some f \<Rightarrow> is_x12_data (fst (py_read (isa_segment_length cfg) f))))"

text \<open>\<open>_set_delimiters\<close>: the three delimiters, read from the ISA segment in this order.\<close>

definition set_delimiters :: "X12Config \<Rightarrow> string \<Rightarrow> py_error + char \<times> char \<times> char" where
  "set_delimiters cfg stream =
     (let isa_segment = fst (py_read (isa_segment_length cfg) stream) in
      case py_index isa_segment (isa_element_separator cfg) of
        Inl e \<Rightarrow> Inl e
      | Inr es \<Rightarrow>
         (case py_index isa_segment (isa_repetition_separator cfg) of
            Inl e \<Rightarrow> Inl e
          | Inr rs \<Rightarrow>
             (case py_index isa_segment (isa_segment_terminator cfg) of
                Inl e \<Rightarrow> Inl e
              | Inr st \<Rightarrow> Inr (es, rs, st))))"

text \<open>
  The first statement of \<open>__enter__\<close>: the text of the stream it opens, or its fault.
  The file is tested under its expanded path and opened under the path as given.
\<close>

definition open_stream :: "filesystem \<Rightarrow> X12Config \<Rightarrow> string \<Rightarrow> py_error + string" where
  "open_stream fs cfg x =
     (if is_x12_file fs cfg x
      then (case read_file fs x of Some f \<Rightarrow> Inr f | None \<Rightarrow> Inl FileNotFoundError)
      else if is_x12_data x then Inr x
      else Inl (ValueError ''Invalid x12_input. Expecting X12 Message or valid path to X12 File''))"

text \<open>\<open>X12SegmentReader(x).__enter__()\<close>.\<close>

definition enter :: "filesystem \<Rightarrow> X12Config \<Rightarrow> string \<Rightarrow> py_error + X12SegmentReader" where
  "enter fs cfg x =
     (case open_stream fs cfg x of
        Inl e \<Rightarrow> Inl e
      | Inr stream \<Rightarrow>
          if fst (py_read (isa_segment_length cfg) stream) = []
          then Inl (ValueError ''Invalid X12Stream'')
          else (case set_delimiters cfg stream of
                  Inl e \<Rightarrow> Inl e
                | Inr (es, rs, st) \<Rightarrow>
                    Inr \<lparr>x12_input = x, config = cfg, x12_stream = stream,
                         element_separator = es, repetition_separator = rs,
                         segment_terminator = st\<rparr>))"

text \<open>
  The inner loop of \<open>segments\<close>: while the buffer does not end with the terminator, one
  more character is read and appended, until the stream is exhausted. The result is the
  buffer and the text left in the stream.
\<close>

fun read_on :: "char \<Rightarrow> string \<Rightarrow> string \<Rightarrow> string \<times> string" where
  "read_on t buffer [] = (buffer, [])"
| "read_on t buffer (c # rest) =
     (if last buffer = t then (buffer, c # rest) else read_on t (buffer @ [c]) rest)"

text \<open>
  The outer loop of \<open>segments\<close>, on the text left in the stream; the generator's yields
  are collected in a list, in order.
\<close>

function segments_loop :: "int \<Rightarrow> char \<Rightarrow> string \<Rightarrow> string list" where
  "segments_loop bs t stream =
     (case py_read bs stream of (buffer, rest) \<Rightarrow>
        if buffer = [] then []
        else (case read_on t buffer rest of (buffer', rest') \<Rightarrow>
                py_split [t] (py_rstrip [t] buffer') @ segments_loop bs t rest'))"
  by pat_completeness auto
termination
proof (relation "measure (\<lambda>(bs, t, stream). length stream)")
  show "wf (measure (\<lambda>(bs, t, stream). length stream))" by simp
next
  fix bs :: int and t :: char and stream buffer rest x2 buffer' rest'
  assume rd: "(buffer, rest) = py_read bs stream" and ne: "buffer \<noteq> []"
    and ex: "(buffer', rest') = read_on t buffer rest"
  from rd ne have "length rest < length stream"
    by (auto simp: py_read_def split: if_splits)
  moreover have "length (snd (read_on t b r)) \<le> length r" for b r
    by (induction r arbitrary: b) (auto simp: le_SucI)
  from this [of buffer rest] ex have "length rest' \<le> length rest"
    by (metis snd_conv)
  ultimately show "((bs, t, rest'), (bs, t, stream)) \<in> measure (\<lambda>(bs, t, stream). length stream)"
    by simp
qed

definition segments :: "X12SegmentReader \<Rightarrow> string list" where
  "segments self =
     segments_loop (x12_reader_buffer_size (config self)) (segment_terminator self)
       (x12_stream self)"

text \<open>\<open>elements(segment, delimiter)\<close>; \<open>split\<close> raises on an empty separator.\<close>

definition elements :: "string \<Rightarrow> string \<Rightarrow> py_error + string list" where
  "elements segment delimiter =
     (if delimiter = [] then Inl (ValueError ''empty separator'')
      else Inr (py_split delimiter segment))"

text \<open>
  The segmentation the reader is specified to produce, written from the specification's
  words and independently of the reader: the stream is cut at every terminator, each
  terminator ends the segment before it, nothing follows a final terminator, and text
  after the last terminator is a final segment of its own.
\<close>

function spec_segments :: "char \<Rightarrow> string \<Rightarrow> string list" where
  "spec_segments t s =
     (if s = [] then []
      else (case dropWhile (\<lambda>x. x \<noteq> t) s of
              [] \<Rightarrow> [s]
            | _ # rest \<Rightarrow> takeWhile (\<lambda>x. x \<noteq> t) s # spec_segments t rest))"
  by pat_completeness auto
termination
proof (relation "measure (\<lambda>(t, s). length s)")
  show "wf (measure (\<lambda>(t, s). length s))" by simp
next
  fix t :: char and s x rest
  assume "dropWhile (\<lambda>x. x \<noteq> t) s = x # rest"
  with length_dropWhile_le [of "\<lambda>x. x \<noteq> t" s] have "length rest < length s" by simp
  then show "((t, rest), (t, s)) \<in> measure (\<lambda>(t, s). length s)" by simp
qed

declare segments_loop.simps [simp del]
declare spec_segments.simps [simp del]

text \<open>
  The encoding of the round-trip property (the repository has no encoder): the header,
  then every segment as its elements joined by the element separator and followed by the
  segment terminator.
\<close>

definition encode :: "string \<Rightarrow> char \<Rightarrow> char \<Rightarrow> string list list \<Rightarrow> string" where
  "encode header sep trm segs =
     header @ concat (map (\<lambda>seg. py_join [sep] seg @ [trm]) segs)"

section \<open>eligibilitycheck.py\<close>

text \<open>
  Subscripting, \<open>value[key]\<close>, with a string or an integer key: a dictionary raises
  \<open>KeyError\<close> for a key it does not hold, a list or string \<open>IndexError\<close> for an index
  out of range and \<open>TypeError\<close> for a string key, and \<open>None\<close>, booleans and integers
  are not subscriptable (\<open>TypeError\<close>). \<open>py_path\<close> subscripts along a path of keys.
\<close>

datatype py_key = KStr string | KIdx int

fun py_getitem :: "pyval \<Rightarrow> py_key \<Rightarrow> py_error + pyval" where
  "py_getitem (PDict d) (KStr k) = (case map_of d k of None \<Rightarrow> Inl KeyError | Some v \<Rightarrow> Inr v)"
| "py_getitem (PDict d) (KIdx i) = Inl KeyError"
| "py_getitem (PList xs) (KIdx i) = py_index xs i"
| "py_getitem (PList xs) (KStr k) = Inl TypeError"
| "py_getitem (PStr s) (KIdx i) = (case py_index s i of Inl e \<Rightarrow> Inl e | Inr c \<Rightarrow> Inr (PStr [c]))"
| "py_getitem (PStr s) (KStr k) = Inl TypeError"
| "py_getitem v k = Inl TypeError"

fun py_path :: "pyval \<Rightarrow> py_key list \<Rightarrow> py_error + pyval" where
  "py_path v [] = Inr v"
| "py_path v (k # ks) = (case py_getitem v k of Inl e \<Rightarrow> Inl e | Inr w \<Rightarrow> py_path w ks)"

text \<open>Python's \<open>==\<close> on these values (\<open>True == 1\<close>; dictionaries compare without order).\<close>

fun py_eq :: "pyval \<Rightarrow> pyval \<Rightarrow> bool" where
  "py_eq PNone PNone = True"
| "py_eq (PBool a) (PBool b) = (a = b)"
| "py_eq (PBool a) (PInt i) = ((if a then 1 else 0) = i)"
| "py_eq (PInt i) (PBool a) = (i = (if a then 1 else 0))"
| "py_eq (PInt i) (PInt j) = (i = j)"
| "py_eq (PStr s) (PStr t) = (s = t)"
| "py_eq (PList xs) (PList ys) = list_all2 py_eq xs ys"
| "py_eq (PDict d) (PDict e) =
     (length d = length e
      \<and> list_all (\<lambda>(k, v). case map_of e k of None \<Rightarrow> False | Some w \<Rightarrow> py_eq v w) d)"
| "py_eq _ _ = False"

fun py_truthy :: "pyval \<Rightarrow> bool" where
  "py_truthy PNone = False"
| "py_truthy (PBool b) = b"
| "py_truthy (PInt i) = (i \<noteq> 0)"
| "py_truthy (PStr s) = (s \<noteq> [])"
| "py_truthy (PList xs) = (xs \<noteq> [])"
| "py_truthy (PDict d) = (d \<noteq> [])"

text \<open>
  The body of the loop of \<open>translate\<close> up to the request, as the sequence of its
  statements: \<open>Segment path\<close> is \<open>segment = model[...]...[...]\<close> and \<open>Assign a key\<close> is
  \<open>self.a = segment[key]\<close>.
\<close>

datatype attr =
  Subscriber_last | Subscriber_first | Subscriber_id | Transaction_id
  | Insurer_name | Insurer_id | Provider_name | Provider_id

fun set_attr :: "attr \<Rightarrow> pyval \<Rightarrow> EdiProcessor \<Rightarrow> EdiProcessor" where
  "set_attr Subscriber_last v p = p\<lparr>subscriber_last := v\<rparr>"
| "set_attr Subscriber_first v p = p\<lparr>subscriber_first := v\<rparr>"
| "set_attr Subscriber_id v p = p\<lparr>subscriber_id := v\<rparr>"
| "set_attr Transaction_id v p = p\<lparr>transaction_id := v\<rparr>"
| "set_attr Insurer_name v p = p\<lparr>insurer_name := v\<rparr>"
| "set_attr Insurer_id v p = p\<lparr>insurer_id := v\<rparr>"
| "set_attr Provider_name v p = p\<lparr>provider_name := v\<rparr>"
| "set_attr Provider_id v p = p\<lparr>provider_id := v\<rparr>"

datatype stmt = Segment "py_key list" | Assign attr string

definition translate_statements :: "stmt list" where
  "translate_statements =
     [Segment [KStr ''loop_2000a'', KIdx 0, KStr ''loop_2000b'', KIdx 0, KStr ''loop_2000c'',
               KIdx 0, KStr ''loop_2100c'', KStr ''nm1_segment''],
      Assign Subscriber_last ''name_last_or_organization_name'',
      Assign Subscriber_first ''name_first'',
      Assign Subscriber_id ''identification_code'',
      Segment [KStr ''loop_2000a'', KIdx 0, KStr ''loop_2000b'', KIdx 0, KStr ''loop_2000c'',
               KIdx 0, KStr ''trn_segment'', KIdx 0],
      Assign Transaction_id ''originating_company_identifier'',
      Segment [KStr ''loop_2000a'', KIdx 0, KStr ''loop_2100a'', KStr ''nm1_segment''],
      Assign Insurer_name ''name_last_or_organization_name'',
      Assign Insurer_id ''identification_code'',
      Segment [KStr ''loop_2000a'', KIdx 0, KStr ''loop_2000b'', KIdx 0, KStr ''loop_2100b'',
               KStr ''nm1_segment''],
      Assign Provider_name ''name_last_or_organization_name'',
      Assign Provider_id ''identification_code'']"

fun run_statements ::
  "pyval \<Rightarrow> stmt list \<Rightarrow> pyval \<Rightarrow> EdiProcessor \<Rightarrow> unit outcome \<times> EdiProcessor" where
  "run_statements model [] segment p = (Return (), p)"
| "run_statements model (Segment path # rest) segment p =
     (case py_path model path of
        Inl e \<Rightarrow> (Raise e, p)
      | Inr s \<Rightarrow> run_statements model rest s p)"
| "run_statements model (Assign a key # rest) segment p =
     (case py_getitem segment (KStr key) of
        Inl e \<Rightarrow> (Raise e, p)
      | Inr v \<Rightarrow> run_statements model rest segment (set_attr a v p))"

text \<open>
  The paths from the model that a sequence of statements subscripts along: the path of
  every segment and, under it, the key of every field read from the segment.
\<close>

fun paths_of :: "py_key list \<Rightarrow> stmt list \<Rightarrow> py_key list list" where
  "paths_of cur [] = []"
| "paths_of cur (Segment path # rest) = path # paths_of path rest"
| "paths_of cur (Assign a key # rest) = (cur @ [KStr key]) # paths_of cur rest"

definition consumed_paths :: "py_key list list" where
  "consumed_paths = paths_of [] translate_statements"

definition get_patient_reference :: "pyval \<Rightarrow> pyval \<Rightarrow> pyval \<Rightarrow> pyval" where
  "get_patient_reference last_name first_name ident =
     (if last_name = PStr ''DOE'' \<and> first_name = PStr ''JOHN'' \<and> ident = PStr ''11122333301''
      then PStr ''Patient/001'' else PNone)"

definition get_insurer_reference :: "pyval \<Rightarrow> pyval \<Rightarrow> pyval" where
  "get_insurer_reference name ident =
     (if name = PStr ''UNIFIED INSURANCE CO'' \<and> ident = PStr ''842610001''
      then PStr ''Organization/001'' else PNone)"

definition get_coverage_reference :: "pyval \<Rightarrow> pyval \<Rightarrow> pyval \<Rightarrow> pyval" where
  "get_coverage_reference last_name first_name ident =
     (if last_name = PStr ''DOE'' \<and> first_name = PStr ''JOHN'' \<and> ident = PStr ''11122333301''
      then PStr ''Coverage/9876B1'' else PNone)"

text \<open>\<open>_create_request\<close>; \<open>today\<close> is \<open>datetime.date.today().isoformat()\<close>.\<close>

definition create_request :: "string \<Rightarrow> EdiProcessor \<Rightarrow> pyval" where
  "create_request today self =
     (let patient_ref = get_patient_reference (subscriber_last self) (subscriber_first self)
                          (subscriber_id self);
          insurer_ref = get_insurer_reference (insurer_name self) (insurer_id self);
          coverage_ref = get_coverage_reference (subscriber_last self) (subscriber_first self)
                          (subscriber_id self)
      in PDict
        [(''resourceType'', PStr ''CoverageEligibilityRequest''),
         (''id'', transaction_id self),
         (''text'', PDict
            [(''status'', PStr ''generated''),
             (''div'', PStr (''<div xmlns='' @ [CHR 0x22] @ ''http://www.w3.org/1999/xhtml'' @ [CHR 0x22]
                @ ''>A human-readable rendering of the CoverageEligibilityRequest</div>''))]),
         (''identifier'', PList
            [PDict [(''system'', PStr ''http://happyvalley.com/coverageelegibilityrequest''),
                    (''value'', transaction_id self)]]),
         (''status'', PStr ''active''),
         (''priority'', PDict [(''coding'', PList [PDict [(''code'', PStr ''normal'')]])]),
         (''purpose'', PList [PStr ''validation'']),
         (''patient'', PDict [(''reference'', patient_ref)]),
         (''created'', PStr today),
         (''provider'', PDict [(''reference'', PStr ''Organization/1'')]),
         (''insurer'', PDict [(''reference'', insurer_ref)]),
         (''insurance'', PList
            [PDict [(''focal'', PBool True),
                    (''coverage'', PDict [(''reference'', coverage_ref)])]])])"

text \<open>
  The loop of \<open>translate\<close> over the models. The request, the elapsed time and the
  \<open>TRANSLATE\<close> entry belong to the loop body: they are done once per model. \<open>clock i\<close>
  is the elapsed time read at the end of iteration \<open>i\<close>.
\<close>

fun translate_models ::
  "(nat \<Rightarrow> real) \<Rightarrow> string \<Rightarrow> nat \<Rightarrow> pyval list \<Rightarrow> EdiProcessor
     \<Rightarrow> unit outcome \<times> EdiProcessor" where
  "translate_models clock today i [] p = (Return (), p)"
| "translate_models clock today i (model # models) p =
     (case run_statements model translate_statements PNone p of
        (Raise e, p') \<Rightarrow> (Raise e, p')
      | (Return _, p') \<Rightarrow>
          translate_models clock today (Suc i) models
            (p'\<lparr>transmit_data := create_request today p',
                metrics := (metrics p')\<lparr>translateTime := clock i\<rparr>,
                operations := operations p' @ [TRANSLATE]\<rparr>))"

text \<open>
  \<open>EdiEligibilityCheckProcessor.translate\<close>. The model reader of the X12 library is a
  parameter: a function of the input message that returns the parsed models, as
  dictionaries, or raises.
\<close>

definition eligibility_translate_impl ::
  "(string \<Rightarrow> py_error + pyval list) \<Rightarrow> (nat \<Rightarrow> real) \<Rightarrow> string \<Rightarrow> EdiProcessor
     \<Rightarrow> unit outcome \<times> EdiProcessor" where
  "eligibility_translate_impl model_reader clock today p =
     (case model_reader (input_message p) of
        Inl e \<Rightarrow> (Raise e, p)
      | Inr models \<Rightarrow> translate_models clock today 0 models p)"

definition eligibility_translate ::
  "(string \<Rightarrow> py_error + pyval list) \<Rightarrow> (nat \<Rightarrow> real) \<Rightarrow> string \<Rightarrow> EdiProcessor
     \<Rightarrow> unit outcome \<times> EdiProcessor" where
  "eligibility_translate model_reader clock today =
     transition_call_async T_translate (eligibility_translate_impl model_reader clock today)"

text \<open>
  \<open>start_nats_coverage_eligibility_subscriber\<close>: a new client, connected (the connection
  is a parameter: \<open>None\<close>, or the fault it raises) and subscribed to one subject; and
  \<open>stop_nats_coverage_eligibility_subscriber\<close>, which closes the client. Closing ends
  the client's subscriptions.
\<close>

definition start_nats_coverage_eligibility_subscriber ::
  "py_error option \<Rightarrow> EdiProcessor \<Rightarrow> unit outcome \<times> EdiProcessor" where
  "start_nats_coverage_eligibility_subscriber connect p =
     (let client = \<lparr>is_connected = False, is_closed = False, subscriptions = []\<rparr> in
      case connect of
        Some e \<Rightarrow> (Raise e, p\<lparr>nats_client := Some client\<rparr>)
      | None \<Rightarrow>
          (Return (),
           p\<lparr>nats_client :=
               Some (client\<lparr>is_connected := True, subscriptions := [''eligibility.EVENTS'']\<rparr>)\<rparr>))"

definition stop_nats_coverage_eligibility_subscriber ::
  "EdiProcessor \<Rightarrow> unit outcome \<times> EdiProcessor" where
  "stop_nats_coverage_eligibility_subscriber p =
     (case nats_client p of
        None \<Rightarrow> (Raise AttributeError, p)
      | Some client \<Rightarrow>
          (Return (),
           p\<lparr>nats_client :=
               Some (client\<lparr>is_connected := False, is_closed := True, subscriptions := []\<rparr>)\<rparr>))"

text \<open>
  The rewriting of the 271 template in the callback. \<open>set_items\<close> is a run of list item
  assignments \<open>elements[i] = v\<close>; \<open>join_elements\<close> is \<open>delimiter.join(elements)\<close>, which
  needs every item to be a string.
\<close>

fun set_items :: "pyval list \<Rightarrow> (nat \<times> pyval) list \<Rightarrow> py_error + pyval list" where
  "set_items xs [] = Inr xs"
| "set_items xs ((i, v) # rest) =
     (if i < length xs then set_items (xs[i := v]) rest else Inl IndexError)"

fun join_elements :: "string \<Rightarrow> pyval list \<Rightarrow> py_error + string list" where
  "join_elements delimiter [] = Inr []"
| "join_elements delimiter (PStr s # rest) =
     (case join_elements delimiter rest of Inl e \<Rightarrow> Inl e | Inr ss \<Rightarrow> Inr (s # ss))"
| "join_elements delimiter (v # rest) = Inl TypeError"

definition rewrite_elements ::
  "EdiProcessor \<Rightarrow> int \<Rightarrow> string \<Rightarrow> pyval list \<Rightarrow> py_error + pyval list" where
  "rewrite_elements self eligibility segment elems =
     (if take 3 segment = ''NM1'' then
        (case py_index elems 1 of
           Inl e \<Rightarrow> Inl e
         | Inr code \<Rightarrow>
             if code = PStr ''IL'' then
               set_items elems [(3, subscriber_last self), (4, subscriber_first self),
                                (9, subscriber_id self)]
             else if code = PStr ''PR'' then
               set_items elems [(3, insurer_name self), (9, insurer_id self)]
             else if code = PStr ''1P'' then
               set_items elems [(3, provider_name self), (9, provider_id self)]
             else Inr elems)
      else if take 3 segment = ''TRN'' then set_items elems [(2, transaction_id self)]
      else if take 2 segment = ''EB'' then
        set_items elems [(1, PStr (if eligibility = 1 then ''1'' else ''6''))]
      else Inr elems)"

text \<open>
  The loop over the template's segments: \<open>element_delimiter\<close> is unbound (\<open>None\<close> here)
  until a segment starts with \<open>ISA\<close>; the result is \<open>output_message\<close>.
\<close>

fun rewrite_template ::
  "EdiProcessor \<Rightarrow> int \<Rightarrow> string option \<Rightarrow> string \<Rightarrow> string list \<Rightarrow> py_error + string" where
  "rewrite_template self eligibility element_delimiter output_message [] = Inr output_message"
| "rewrite_template self eligibility element_delimiter output_message (segment # rest) =
     (let element_delimiter' =
            (if take 3 segment = ''ISA'' then Some (take 1 (drop 3 segment))
             else element_delimiter);
          output_message' =
            (if take 3 segment = ''ISA'' then output_message else output_message @ ''~'')
      in case element_delimiter' of
           None \<Rightarrow> Inl UnboundLocalError
         | Some delimiter \<Rightarrow>
            (case elements segment delimiter of
               Inl e \<Rightarrow> Inl e
             | Inr elems \<Rightarrow>
                (case rewrite_elements self eligibility segment (map PStr elems) of
                   Inl e \<Rightarrow> Inl e
                 | Inr elems' \<Rightarrow>
                    (case join_elements delimiter elems' of
                       Inl e \<Rightarrow> Inl e
                     | Inr strs \<Rightarrow>
                        rewrite_template self eligibility element_delimiter'
                          (output_message' @ py_rstrip delimiter (py_join delimiter strs))
                          rest))))"

text \<open>
  \<open>nats_coverage_response_callback\<close>, on the decoded JSON payload of the message. The
  template file is a parameter (its lines, or \<open>None\<close> when it cannot be opened), and so
  are the files the reader consults. The result is the fault if one is raised, the
  processor, and the rewritten 271 message when the template has been rewritten.
\<close>

definition nats_coverage_response_callback ::
  "filesystem \<Rightarrow> string list option \<Rightarrow> pyval \<Rightarrow> EdiProcessor
     \<Rightarrow> unit outcome \<times> EdiProcessor \<times> string option" where
  "nats_coverage_response_callback fs template_file message self =
     (case py_path message [KStr ''identifier'', KIdx 0, KStr ''value''] of
        Inl e \<Rightarrow> (Raise e, self, None)
      | Inr ident \<Rightarrow>
          if \<not> py_eq ident (transaction_id self) then (Return (), self, None)
          else
            (case py_path message [KStr ''insurance'', KIdx 0, KStr ''inforce''] of
               Inl e \<Rightarrow> (Raise e, self, None)
             | Inr inforce \<Rightarrow>
                (let eligibility = (if py_truthy inforce then 1 else 6) in
                 case template_file of
                   None \<Rightarrow> (Raise FileNotFoundError, self, None)
                 | Some lines \<Rightarrow>
                    (case enter fs get_config (py_join '','' lines) of
                       Inl e \<Rightarrow> (Raise e, self, None)
                     | Inr r \<Rightarrow>
                        (case rewrite_template self eligibility None [] (segments r) of
                           Inl e \<Rightarrow> (Raise e, self, None)
                         | Inr output_message \<Rightarrow>
                            (Return (), self\<lparr>message_received := True\<rparr>,
                             Some output_message))))))"



definition extractable :: "pyval \<Rightarrow> bool" where
  "extractable model = list_all (\<lambda>path. \<not> isl (py_path model path)) consumed_paths"

section \<open>cli.py\<close>

text \<open>
  The environment of one run of \<open>process_edi\<close>, a parameter: the lines of the EDI file
  (\<open>None\<close> when it cannot be opened), the outcome of the connection to the event channel,
  the collaborators of the stages, the clock readings, the date, the files and the
  template that the callback reads, and the messages that arrive during \<open>transmit\<close> and
  during the wait. \<open>kwargs\<close> are the options of the command line, as truth values.
\<close>

record run_env =
  env_edi_file :: "string list option"
  env_connect :: "py_error option"
  env_analyzer :: "string \<Rightarrow> py_error + EdiMessageMetadata"
  env_model_reader :: "string \<Rightarrow> py_error + pyval list"
  env_post :: "pyval \<Rightarrow> py_error + string \<times> int"
  env_analyze_elapsed :: real
  env_enrich_elapsed :: real
  env_validate_elapsed :: real
  env_translate_clock :: "nat \<Rightarrow> real"
  env_transmit_elapsed :: real
  env_today :: string
  env_files :: filesystem
  env_template_file :: "string list option"
  env_inbound_transmit :: "pyval list"
  env_inbound_wait :: "pyval list"

record kwargs =
  kw_enrich :: bool
  kw_validate :: bool
  kw_translate :: bool
  kw_transmit :: bool

text \<open>
  The callback runs on the event loop while the caller is suspended in an \<open>await\<close>.
  \<open>deliver\<close> runs it on the messages that arrive during one suspension, in order; a
  fault of the callback stays with the client of the event channel, and the processor is
  as the callback left it.
\<close>

fun deliver ::
  "filesystem \<Rightarrow> string list option \<Rightarrow> pyval list \<Rightarrow> EdiProcessor
     \<Rightarrow> EdiProcessor" where
  "deliver fs template_file [] p = p"
| "deliver fs template_file (m # ms) p =
     deliver fs template_file ms
       (fst (snd (nats_coverage_response_callback fs template_file m p)))"

text \<open>\<open>transmit\<close>, with the messages that arrive while the request is awaited.\<close>

definition transmit_receiving ::
  "filesystem \<Rightarrow> string list option \<Rightarrow> pyval list
     \<Rightarrow> (pyval \<Rightarrow> py_error + string \<times> int) \<Rightarrow> real \<Rightarrow> EdiProcessor
     \<Rightarrow> unit outcome \<times> EdiProcessor" where
  "transmit_receiving fs template_file msgs post elapsed =
     transition_call_async T_transmit
       (\<lambda>p. transmit_impl post elapsed (deliver fs template_file msgs p))"

text \<open>
  The loop \<open>while not processor.message_received: await asyncio.sleep(2)\<close> on the
  messages that arrive during the successive sleeps. The result is \<open>True\<close> and the
  processor when the loop ends, and \<open>False\<close> when all the messages have been handled and
  the loop still waits: no later message, the loop never ends.
\<close>

fun wait_for_message ::
  "filesystem \<Rightarrow> string list option \<Rightarrow> pyval list \<Rightarrow> EdiProcessor
     \<Rightarrow> bool \<times> EdiProcessor" where
  "wait_for_message fs template_file [] p = (message_received p, p)"
| "wait_for_message fs template_file (m # ms) p =
     (if message_received p then (True, p)
      else wait_for_message fs template_file ms
             (fst (snd (nats_coverage_response_callback fs template_file m p))))"

text \<open>
  The statements of \<open>process_edi\<close> from the subscription to \<open>transmit\<close>: a stage runs
  if its option is set and the stage before returned; a fault ends the sequence.
\<close>

definition optional ::
  "bool \<Rightarrow> (EdiProcessor \<Rightarrow> unit outcome \<times> EdiProcessor) \<Rightarrow> EdiProcessor
     \<Rightarrow> unit outcome \<times> EdiProcessor" where
  "optional flag stage p = (if flag then stage p else (Return (), p))"

definition and_then ::
  "unit outcome \<times> EdiProcessor \<Rightarrow> (EdiProcessor \<Rightarrow> unit outcome \<times> EdiProcessor)
     \<Rightarrow> unit outcome \<times> EdiProcessor" where
  "and_then r next_stage =
     (case r of (Raise e, p) \<Rightarrow> (Raise e, p) | (Return _, p) \<Rightarrow> next_stage p)"

definition stages :: "run_env \<Rightarrow> kwargs \<Rightarrow> EdiProcessor \<Rightarrow> unit outcome \<times> EdiProcessor" where
  "stages env kw processor =
     and_then (start_nats_coverage_eligibility_subscriber (env_connect env) processor)
       (\<lambda>p. and_then (analyze (env_analyzer env) (env_analyze_elapsed env) p)
       (\<lambda>p. and_then (optional (kw_enrich kw) (enrich (env_enrich_elapsed env)) p)
       (\<lambda>p. and_then (optional (kw_validate kw) (validate (env_validate_elapsed env)) p)
       (\<lambda>p. and_then (optional (kw_translate kw)
                (eligibility_translate (env_model_reader env) (env_translate_clock env)
                   (env_today env)) p)
       (optional (kw_transmit kw)
          (transmit_receiving (env_files env) (env_template_file env)
             (env_inbound_transmit env) (env_post env) (env_transmit_elapsed env)))))))"

text \<open>
  How a run ends: with the result, with a fault that \<open>process_edi\<close> passes on, or not at
  all (\<open>Waiting\<close>: no response matched).
\<close>

datatype 'a run = Finished 'a | Fault py_error | Waiting

text \<open>\<open>process_edi\<close>: the result of the run and the processor, once there is one.\<close>

definition process_edi :: "run_env \<Rightarrow> kwargs \<Rightarrow> EdiResult run \<times> EdiProcessor option" where
  "process_edi env kw =
     (case env_edi_file env of
        None \<Rightarrow> (Fault FileNotFoundError, None)
      | Some lines \<Rightarrow>
         (case stages env kw (new_processor (py_join '','' lines)) of
            (Raise e, p) \<Rightarrow> (Fault e, Some p)
          | (Return _, p) \<Rightarrow>
             (case wait_for_message (env_files env) (env_template_file env)
                     (env_inbound_wait env) p of
                (False, p) \<Rightarrow> (Waiting, Some p)
              | (True, p) \<Rightarrow>
                 (case stop_nats_coverage_eligibility_subscriber p of
                    (Raise e, p) \<Rightarrow> (Fault e, Some p)
                  | (Return _, p) \<Rightarrow>
                     (case complete p of
                        (Raise e, p) \<Rightarrow> (Fault e, Some p)
                      | (Return result, p) \<Rightarrow> (Finished result, Some p))))))"

section \<open>Calls of the transition methods\<close>

text \<open>
  A call of one of the transition methods of the processor, with the arguments and the
  collaborators it needs, and the transition each call requests: the eight methods of
  \<open>EdiProcessor\<close> and the \<open>translate\<close> of \<open>EdiEligibilityCheckProcessor\<close>.
\<close>

datatype call =
    CallAnalyze "string \<Rightarrow> py_error + EdiMessageMetadata" real
  | CallEnrich real
  | CallValidate real
  | CallTranslate real
  | CallEligibilityTranslate "string \<Rightarrow> py_error + pyval list" "nat \<Rightarrow> real" string
  | CallTransmit "pyval \<Rightarrow> py_error + string \<times> int" real
  | CallComplete
  | CallCancel
  | CallFail string "string option"

fun requested :: "call \<Rightarrow> transition" where
  "requested (CallAnalyze _ _) = T_analyze"
| "requested (CallEnrich _) = T_enrich"
| "requested (CallValidate _) = T_validate"
| "requested (CallTranslate _) = T_translate"
| "requested (CallEligibilityTranslate _ _ _) = T_translate"
| "requested (CallTransmit _ _) = T_transmit"
| "requested CallComplete = T_complete"
| "requested CallCancel = T_cancel"
| "requested (CallFail _ _) = T_fail"

definition no_result :: "unit outcome \<times> EdiProcessor \<Rightarrow> EdiResult option outcome \<times> EdiProcessor" where
  "no_result r = (case r of (Raise e, p) \<Rightarrow> (Raise e, p) | (Return _, p) \<Rightarrow> (Return None, p))"

definition with_result ::
  "EdiResult outcome \<times> EdiProcessor \<Rightarrow> EdiResult option outcome \<times> EdiProcessor" where
  "with_result r = (case r of (Raise e, p) \<Rightarrow> (Raise e, p) | (Return x, p) \<Rightarrow> (Return (Some x), p))"

fun invoke :: "call \<Rightarrow> EdiProcessor \<Rightarrow> EdiResult option outcome \<times> EdiProcessor" where
  "invoke (CallAnalyze analyzer elapsed) p = no_result (analyze analyzer elapsed p)"
| "invoke (CallEnrich elapsed) p = no_result (enrich elapsed p)"
| "invoke (CallValidate elapsed) p = no_result (validate elapsed p)"
| "invoke (CallTranslate elapsed) p = no_result (translate elapsed p)"
| "invoke (CallEligibilityTranslate model_reader clock today) p =
     no_result (eligibility_translate model_reader clock today p)"
| "invoke (CallTransmit post elapsed) p = no_result (transmit post elapsed p)"
| "invoke CallComplete p = with_result (complete p)"
| "invoke CallCancel p = with_result (cancel p)"
| "invoke (CallFail reason exception) p = with_result (fail reason exception p)"

text \<open>
  The stage work of a call raises no fault of its own: the collaborator it calls returns
  and, for the eligibility translation, every model holds every path that is read.
\<close>

fun stage_work_returns :: "call \<Rightarrow> EdiProcessor \<Rightarrow> bool" where
  "stage_work_returns (CallAnalyze analyzer _) p = (\<not> isl (analyzer (input_message p)))"
| "stage_work_returns (CallTransmit post _) p = (\<not> isl (post (transmit_data p)))"
| "stage_work_returns (CallEligibilityTranslate model_reader _ _) p =
     (case model_reader (input_message p) of
        Inl e \<Rightarrow> False
      | Inr models \<Rightarrow> list_all extractable models)"
| "stage_work_returns _ p = True"

section \<open>Fixtures\<close>

definition example_metadata :: EdiMessageMetadata where
  "example_metadata =
     \<lparr>baseMessageType = TEXT, messageType = X12, specificationVersion = ''005010X279A1'',
      implementationVersions = None, messageSize = 509, recordCount = 17,
      checksum = ''d7a928f396efa0bb''\<rparr>"

definition example_analyzer :: "string \<Rightarrow> py_error + EdiMessageMetadata" where
  "example_analyzer msg = Inr example_metadata"

definition failing_analyzer :: "string \<Rightarrow> py_error + EdiMessageMetadata" where
  "failing_analyzer msg = Inl (CollaboratorError ''Unable to determine message type'')"

definition example_isa_segment :: string where
  "example_isa_segment = ''ISA*00*          *00*          *ZZ*890069730      *ZZ*154663145      *200929*1705*|*00501*000000001*0*T*:''"

definition example_isa :: string where
  "example_isa = example_isa_segment @ ''~''"

definition no_files :: filesystem where
  "no_files = \<lparr>expand_path = (\<lambda>path. path), read_file = (\<lambda>path. None)\<rparr>"

definition example_reader :: "string \<Rightarrow> X12SegmentReader" where
  "example_reader x =
     \<lparr>x12_input = x, config = get_config, x12_stream = x,
      element_separator = CHR ''*'', repetition_separator = CHR ''|'',
      segment_terminator = CHR ''~''\<rparr>"

definition example_model :: pyval where
  "example_model =
     PDict [(''loop_2000a'', PList
       [PDict
          [(''loop_2100a'', PDict [(''nm1_segment'', PDict
              [(''name_last_or_organization_name'', PStr ''UNIFIED INSURANCE CO''),
               (''identification_code'', PStr ''842610001'')])]),
           (''loop_2000b'', PList
              [PDict
                 [(''loop_2100b'', PDict [(''nm1_segment'', PDict
                     [(''name_last_or_organization_name'', PStr ''DOWNTOWN MEDICAL CENTER''),
                      (''identification_code'', PStr ''2868383243'')])]),
                  (''loop_2000c'', PList
                     [PDict
                        [(''loop_2100c'', PDict [(''nm1_segment'', PDict
                            [(''name_last_or_organization_name'', PStr ''DOE''),
                             (''name_first'', PStr ''JOHN''),
                             (''identification_code'', PStr ''11122333301'')])]),
                         (''trn_segment'', PList
                            [PDict [(''originating_company_identifier'',
                                     PStr ''9800000004'')]])]])]])]])]"

definition model_without_trn :: pyval where
  "model_without_trn =
     PDict [(''loop_2000a'', PList
       [PDict
          [(''loop_2100a'', PDict [(''nm1_segment'', PDict
              [(''name_last_or_organization_name'', PStr ''UNIFIED INSURANCE CO''),
               (''identification_code'', PStr ''842610001'')])]),
           (''loop_2000b'', PList
              [PDict
                 [(''loop_2100b'', PDict [(''nm1_segment'', PDict
                     [(''name_last_or_organization_name'', PStr ''DOWNTOWN MEDICAL CENTER''),
                      (''identification_code'', PStr ''2868383243'')])]),
                  (''loop_2000c'', PList
                     [PDict
                        [(''loop_2100c'', PDict [(''nm1_segment'', PDict
                            [(''name_last_or_organization_name'', PStr ''DOE''),
                             (''name_first'', PStr ''JOHN''),
                             (''identification_code'', PStr ''11122333301'')])]),
                         (''trn_segment'', PList [])]])]])]])]"

definition one_model_reader :: "string \<Rightarrow> py_error + pyval list" where
  "one_model_reader msg = Inr [example_model]"

definition two_model_reader :: "string \<Rightarrow> py_error + pyval list" where
  "two_model_reader msg = Inr [example_model, example_model]"

definition no_model_reader :: "string \<Rightarrow> py_error + pyval list" where
  "no_model_reader msg = Inr []"

definition no_trn_reader :: "string \<Rightarrow> py_error + pyval list" where
  "no_trn_reader msg = Inr [model_without_trn]"

definition example_clock :: "nat \<Rightarrow> real" where
  "example_clock i = 2 + real i"

definition example_post :: "pyval \<Rightarrow> py_error + string \<times> int" where
  "example_post resource = Inr (''{}'', 200)"

definition analyzed_processor :: EdiProcessor where
  "analyzed_processor = snd (analyze example_analyzer 5 (new_processor example_isa))"

definition other_message :: pyval where
  "other_message =
     PDict [(''identifier'', PList [PDict [(''value'', PStr ''0000000000'')]]),
            (''insurance'', PList [PDict [(''inforce'', PBool True)]])]"

definition matching_message :: pyval where
  "matching_message =
     PDict [(''identifier'', PList [PDict [(''value'', PStr ''9800000004'')]]),
            (''insurance'', PList [PDict [(''inforce'', PBool True)]])]"

definition example_template :: "string list" where
  "example_template =
     [example_isa @ ''NM1*IL*1*LAST*FIRST****MI*ID~TRN*2*TRACE*ORIGIN~EB*6**30~'']"

definition example_env :: run_env where
  "example_env =
     \<lparr>env_edi_file = Some [example_isa],
      env_connect = None,
      env_analyzer = example_analyzer,
      env_model_reader = one_model_reader,
      env_post = example_post,
      env_analyze_elapsed = 5, env_enrich_elapsed = 1, env_validate_elapsed = 1,
      env_translate_clock = example_clock, env_transmit_elapsed = 7,
      env_today = ''2021-03-01'',
      env_files = no_files,
      env_template_file = Some example_template,
      env_inbound_transmit = [],
      env_inbound_wait = [other_message, matching_message]\<rparr>"

definition all_stages :: kwargs where
  "all_stages = \<lparr>kw_enrich = True, kw_validate = True, kw_translate = True, kw_transmit = True\<rparr>"

definition translated_processor :: EdiProcessor where
  "translated_processor =
     snd (eligibility_translate one_model_reader example_clock ''2021-03-01'' analyzed_processor)"

definition failing_env :: run_env where
  "failing_env = example_env\<lparr>env_analyzer := failing_analyzer\<rparr>"

section \<open>Lemmas on subscripting and the translation loop\<close>




lemma py_path_snoc:
  "py_path v (ks @ [k]) = (case py_path v ks of Inl e \<Rightarrow> Inl e | Inr w \<Rightarrow> py_getitem w k)"
  by (induction ks arbitrary: v) (auto split: sum.splits)


lemma run_statements_returns:
  "py_path model cur = Inr seg \<Longrightarrow>
     (\<exists>p'. run_statements model stmts seg p = (Return (), p'))
       = list_all (\<lambda>path. \<not> isl (py_path model path)) (paths_of cur stmts)"
proof (induction stmts arbitrary: cur seg p)
  case Nil
  then show ?case by simp
next
  case (Cons st stmts)
  show ?case
  proof (cases st)
    case (Segment path)
    show ?thesis
    proof (cases "py_path model path")
      case (Inl e)
      with Segment show ?thesis by simp
    next
      case (Inr s)
      with Segment Cons.IH [OF Inr, of p] show ?thesis by simp
    qed
  next
    case (Assign a key)
    show ?thesis
    proof (cases "py_getitem seg (KStr key)")
      case (Inl e)
      with Assign Cons.prems show ?thesis by (simp add: py_path_snoc)
    next
      case (Inr v)
      with Assign Cons.prems Cons.IH [OF Cons.prems, of "set_attr a v p"] show ?thesis
        by (simp add: py_path_snoc)
    qed
  qed
qed

lemma run_translate_statements:
  "(\<exists>p'. run_statements model translate_statements PNone p = (Return (), p'))
     = extractable model"
proof -
  obtain path rest where ts: "translate_statements = Segment path # rest"
    by (simp add: translate_statements_def)
  show ?thesis
  proof (cases "py_path model path")
    case (Inl e)
    then show ?thesis unfolding extractable_def consumed_paths_def ts by simp
  next
    case (Inr s)
    with run_statements_returns [OF Inr, of rest p] show ?thesis
      unfolding extractable_def consumed_paths_def ts by simp
  qed
qed

lemma outcome_unit_cases:
  obtains e p' where "(r :: unit outcome \<times> EdiProcessor) = (Raise e, p')"
  | p' where "r = (Return (), p')"
  by (cases r; cases "fst r") auto


lemma translate_models_returns:
  "(\<exists>p'. translate_models clock today i models p = (Return (), p')) = list_all extractable models"
proof (induction models arbitrary: i p)
  case Nil
  then show ?case by simp
next
  case (Cons m models)
  show ?case
  proof (cases "run_statements m translate_statements PNone p" rule: outcome_unit_cases)
    case (1 e' q)
    with run_translate_statements [of m p] show ?thesis by auto
  next
    case (2 q)
    with run_translate_statements [of m p] Cons.IH show ?thesis by auto
  qed
qed

lemma set_attr_state: "state (set_attr a v p) = state p"
  by (cases a) simp_all

lemma run_statements_state: "run_statements model stmts seg p = (r, p') \<Longrightarrow> state p' = state p"
proof (induction model stmts seg p rule: run_statements.induct)
  case (1 model segment p)
  then show ?case by simp
next
  case (2 model path rest segment p)
  then show ?case by (auto split: sum.splits)
next
  case (3 model a key rest segment p)
  then show ?case by (auto split: sum.splits simp: set_attr_state)
qed

lemma translate_models_state:
  "translate_models clock today i models p = (r, p') \<Longrightarrow> state p' = state p"
proof (induction models arbitrary: i p)
  case Nil
  then show ?case by simp
next
  case (Cons m models)
  show ?case
  proof (cases "run_statements m translate_statements PNone p" rule: outcome_unit_cases)
    case (1 e' q)
    with Cons.prems show ?thesis by (auto dest: run_statements_state)
  next
    case (2 q)
    from 2 have "state q = state p" by (rule run_statements_state)
    with 2 Cons.prems Cons.IH [of "Suc i" _] show ?thesis by auto
  qed
qed

section \<open>Properties of the workflow\<close>

lemma transition_call_illegal:
  "state p \<notin> set (sources tr) \<Longrightarrow>
     transition_call tr impl p = (Raise (InvalidTransitionError tr (state p)), p)"
  by (simp add: transition_call_def)

lemma transition_call_async_illegal:
  "state p \<notin> set (sources tr) \<Longrightarrow>
     transition_call_async tr impl p = (Raise (InvalidTransitionError tr (state p)), p)"
  by (simp add: transition_call_async_def)

text \<open>
  C6. A transition method called in a state that is not among the sources of its
  transition raises \<open>InvalidTransitionError\<close>, which carries the requested transition and
  the current state, and the processor (its state, its operation log and every other
  attribute) is unchanged.
\<close>

theorem illegal_transition_rejected:
  assumes "state p \<notin> set (sources (requested c))"
  shows "invoke c p = (Raise (InvalidTransitionError (requested c) (state p)), p)"
proof (cases c)
  case (CallAnalyze analyzer elapsed)
  with assms show ?thesis
    by (simp add: analyze_def no_result_def transition_call_illegal)
next
  case (CallEnrich elapsed)
  with assms show ?thesis
    by (simp add: enrich_def no_result_def transition_call_illegal)
next
  case (CallValidate elapsed)
  with assms show ?thesis
    by (simp add: validate_def no_result_def transition_call_illegal)
next
  case (CallTranslate elapsed)
  with assms show ?thesis
    by (simp add: translate_def no_result_def transition_call_async_illegal)
next
  case (CallEligibilityTranslate model_reader clock today)
  with assms show ?thesis
    by (simp add: eligibility_translate_def no_result_def transition_call_async_illegal)
next
  case (CallTransmit post elapsed)
  with assms show ?thesis
    by (simp add: transmit_def no_result_def transition_call_async_illegal)
next
  case CallComplete
  with assms show ?thesis
    by (simp add: complete_def with_result_def transition_call_illegal)
next
  case CallCancel
  with assms show ?thesis
    by (simp add: cancel_def with_result_def transition_call_illegal)
next
  case (CallFail reason exception)
  with assms show ?thesis
    by (simp add: fail_def with_result_def transition_call_illegal)
qed

theorem illegal_transition_rejected_witness:
  "invoke (CallEnrich 1) (new_processor ''ISA'')
     = (Raise (InvalidTransitionError T_enrich Init), new_processor ''ISA'')
   \<and> invalid_transition_message T_enrich Init
     = ''Transition '' @ [CHR 0x27] @ ''enrich'' @ [CHR 0x27] @ '' isn'' @ [CHR 0x27]
        @ ''t available from state '' @ [CHR 0x27] @ ''init'' @ [CHR 0x27] @ ''.''"
  using illegal_transition_rejected [of "new_processor ''ISA''" "CallEnrich 1"]
  by (simp add: new_processor_def invalid_transition_message_def quote_def)


lemma create_edi_result_total:
  "map_option totalTime (result_metrics (create_edi_result p)) = Some (stage_sum (metrics p))"
  by (simp add: create_edi_result_def EdiProcessingMetrics_init_def stage_sum_def Let_def)

lemmas total_simps = create_edi_result_def EdiProcessingMetrics_init_def stage_sum_def

text \<open>
  C1 fails as stated: \<open>totalTime\<close> is computed once, when the metrics object is built, and
  the stages assign their own field only. After \<open>analyze\<close> from \<open>init\<close> with an elapsed
  time of 5 the processor's metrics hold a \<open>totalTime\<close> of 0 against a stage sum of 5.
  Besides, a legal transition whose stage work raises (here the analyzer) does not succeed:
  the fault is passed on and the state stays where it was.
\<close>

theorem total_time_stale_after_analyze:
  "fst (analyze example_analyzer 5 (new_processor ''ISA'')) = Return ()
   \<and> state (snd (analyze example_analyzer 5 (new_processor ''ISA''))) = Analyzed
   \<and> totalTime (metrics (snd (analyze example_analyzer 5 (new_processor ''ISA'')))) = 0
   \<and> stage_sum (metrics (snd (analyze example_analyzer 5 (new_processor ''ISA'')))) = 5
   \<and> analyze failing_analyzer 5 (new_processor ''ISA'')
       = (Raise (CollaboratorError ''Unable to determine message type''), new_processor ''ISA'')"
  by (simp add: analyze_def transition_call_def analyze_impl_def example_analyzer_def
      failing_analyzer_def new_processor_def EdiProcessingMetrics_init_def stage_sum_def)

text \<open>
  C1, amended. For every legal (source state, transition) pair whose stage work raises no
  fault, the call returns and the state becomes the transition's target; the result
  assembled from the processor afterwards carries a \<open>totalTime\<close> equal to the sum of the
  five stage durations recorded so far, and so does the result that \<open>complete\<close>,
  \<open>cancel\<close> and \<open>fail\<close> return.
\<close>

theorem legal_transition_total_in_result:
  assumes legal: "state p \<in> set (sources (requested c))"
    and work: "stage_work_returns c p"
  shows "\<exists>r p'. invoke c p = (Return r, p') \<and> state p' = target (requested c)
           \<and> map_option totalTime (result_metrics (create_edi_result p'))
               = Some (stage_sum (metrics p'))
           \<and> (\<forall>res. r = Some res \<longrightarrow>
                 map_option totalTime (result_metrics res) = Some (stage_sum (metrics p')))"
proof (cases c)
  case (CallAnalyze analyzer elapsed)
  with work obtain md where "analyzer (input_message p) = Inr md"
    by (cases "analyzer (input_message p)") auto
  with CallAnalyze legal show ?thesis
    by (simp add: analyze_def no_result_def transition_call_def analyze_impl_def
        total_simps)
next
  case (CallEnrich elapsed)
  with legal show ?thesis
    by (simp add: enrich_def no_result_def transition_call_def enrich_impl_def
        total_simps)
next
  case (CallValidate elapsed)
  with legal show ?thesis
    by (simp add: validate_def no_result_def transition_call_def validate_impl_def
        total_simps)
next
  case (CallTranslate elapsed)
  with legal show ?thesis
    by (simp add: translate_def no_result_def transition_call_async_def translate_impl_def
        total_simps)
next
  case (CallEligibilityTranslate model_reader clock today)
  with work obtain models where mr: "model_reader (input_message p) = Inr models"
    and ex: "list_all extractable models"
    by (cases "model_reader (input_message p)") auto
  from ex translate_models_returns [of clock today 0 models "p\<lparr>state := Translated\<rparr>"]
  obtain p' where tm: "translate_models clock today 0 models (p\<lparr>state := Translated\<rparr>)
      = (Return (), p')"
    by blast
  then have "state p' = Translated" by (auto dest: translate_models_state)
  with CallEligibilityTranslate legal mr tm show ?thesis
    by (simp add: eligibility_translate_def no_result_def transition_call_async_def
        eligibility_translate_impl_def total_simps Let_def)
next
  case (CallTransmit post elapsed)
  with work obtain body status_code where "post (transmit_data p) = Inr (body, status_code)"
    by (cases "post (transmit_data p)") auto
  with CallTransmit legal show ?thesis
    by (simp add: transmit_def no_result_def transition_call_async_def transmit_impl_def
        total_simps)
next
  case CallComplete
  with legal show ?thesis
    by (simp add: complete_def with_result_def transition_call_def complete_impl_def Let_def
        total_simps)
next
  case CallCancel
  with legal show ?thesis
    by (simp add: cancel_def with_result_def transition_call_def cancel_impl_def Let_def
        total_simps)
next
  case (CallFail reason exception)
  with legal show ?thesis
    by (cases exception)
      (simp_all add: fail_def with_result_def transition_call_def fail_impl_def Let_def
        total_simps)
qed

theorem legal_transition_total_in_result_witness:
  "\<exists>r p'. invoke (CallAnalyze example_analyzer 5) (new_processor ''ISA'') = (Return r, p')
      \<and> state p' = Analyzed
      \<and> map_option totalTime (result_metrics (create_edi_result p')) = Some 5"
proof -
  have legal: "state (new_processor ''ISA'')
      \<in> set (sources (requested (CallAnalyze example_analyzer 5)))"
    by (simp add: new_processor_def)
  have work: "stage_work_returns (CallAnalyze example_analyzer 5) (new_processor ''ISA'')"
    by (simp add: example_analyzer_def)
  from legal_transition_total_in_result [OF legal work]
  obtain r p' where inv: "invoke (CallAnalyze example_analyzer 5) (new_processor ''ISA'') = (Return r, p')"
    and st: "state p' = target (requested (CallAnalyze example_analyzer 5))"
    and tot: "map_option totalTime (result_metrics (create_edi_result p'))
               = Some (stage_sum (metrics p'))"
    by blast
  from inv have "stage_sum (metrics p') = 5"
    by (auto simp: analyze_def no_result_def transition_call_def analyze_impl_def
        example_analyzer_def new_processor_def EdiProcessingMetrics_init_def stage_sum_def)
  with inv st tot show ?thesis by simp
qed

text \<open>
  C2 fails as stated: \<open>fail\<close> is a transition like the others, and its sources are the
  six non-terminal states. Called on a processor that has already failed, it raises.
\<close>

theorem fail_raises_after_fail:
  "fst (fail ''boom'' None (snd (fail ''first'' None (new_processor ''ISA''))))
     = Raise (InvalidTransitionError T_fail Failed)"
  by (simp add: fail_def transition_call_def fail_impl_def Let_def new_processor_def)

text \<open>
  C2, amended. From every non-terminal state, \<open>fail(reason, exception)\<close> returns a result:
  its operation log ends with \<open>FAIL\<close>, its error list is the entry with the reason,
  followed by the entry with the stringified exception when one is given, and the state
  becomes \<open>failed\<close>. From a terminal state \<open>fail\<close> raises \<open>InvalidTransitionError\<close> and
  changes nothing.
\<close>

theorem fail_from_non_terminal:
  "if state p \<in> {Completed, Cancelled, Failed}
   then fail reason exception p = (Raise (InvalidTransitionError T_fail (state p)), p)
   else (\<exists>res p'. fail reason exception p = (Return res, p')
           \<and> state p' = Failed
           \<and> operations p' = operations p @ [FAIL]
           \<and> result_operations res \<noteq> [] \<and> last (result_operations res) = FAIL
           \<and> errors res = [(''msg'', reason)]
                # (case exception of None \<Rightarrow> [] | Some s \<Rightarrow> [[(''msg'', s)]]))"
proof (cases "state p \<in> {Completed, Cancelled, Failed}")
  case True
  then have "state p \<notin> set (sources T_fail)" by auto
  with True show ?thesis by (simp add: fail_def transition_call_illegal)
next
  case False
  then have "state p \<in> set (sources T_fail)"
    by (cases "state p") simp_all
  with False show ?thesis
    by (cases exception)
      (simp_all add: fail_def transition_call_def fail_impl_def Let_def create_edi_result_def)
qed

theorem fail_from_non_terminal_witness:
  "\<exists>res p'. fail ''boom'' None (new_processor ''ISA'') = (Return res, p')
      \<and> state p' = Failed
      \<and> last (result_operations res) = FAIL
      \<and> errors res = [[(''msg'', ''boom'')]]"
proof -
  have "state (new_processor ''ISA'') \<notin> {Completed, Cancelled, Failed}"
    by (simp add: new_processor_def)
  with fail_from_non_terminal [of "new_processor ''ISA''" "''boom''" None]
  show ?thesis by auto
qed

section \<open>Properties of the segment reader\<close>

lemma set_delimiters_short:
  assumes "length s < 106"
  shows "set_delimiters get_config s = Inl IndexError"
proof -
  from assms have "py_index s 105 = Inl IndexError" by (simp add: py_index_def)
  with assms show ?thesis
    by (simp add: set_delimiters_def get_config_def py_read_def Let_def split: sum.splits)
      (auto simp: py_index_def split: if_splits)
qed

text \<open>
  What opening does for every configuration: an input that is neither X12 text nor the
  path of an X12 file is refused with the \<open>ValueError\<close> for an invalid input.
\<close>

lemma enter_invalid_input:
  "\<not> is_x12_data x \<Longrightarrow> \<not> is_x12_file fs cfg x \<Longrightarrow>
     enter fs cfg x
       = Inl (ValueError ''Invalid x12_input. Expecting X12 Message or valid path to X12 File'')"
  by (simp add: enter_def open_stream_def)

text \<open>
  What opening does with the default configuration: the same \<open>ValueError\<close> when neither
  the input text nor the file it may name begins with \<open>ISA\<close>; and for a text that is
  opened and has fewer than 106 characters, the \<open>ValueError\<close> for an invalid stream when
  it is empty and otherwise \<open>IndexError\<close>, from the subscript at offset 105 in
  \<open>_set_delimiters\<close>.
\<close>

lemma enter_default_configuration:
  "(\<not> is_x12_data x \<and> (\<forall>f. read_file fs (expand_path fs x) = Some f \<longrightarrow> \<not> is_x12_data f)
      \<longrightarrow> enter fs get_config x
            = Inl (ValueError ''Invalid x12_input. Expecting X12 Message or valid path to X12 File''))
   \<and> (\<forall>s. open_stream fs get_config x = Inr s \<and> length s < 106
          \<longrightarrow> enter fs get_config x
                = Inl (if s = [] then ValueError ''Invalid X12Stream'' else IndexError))"
proof -
  have a: "enter fs get_config x
            = Inl (ValueError ''Invalid x12_input. Expecting X12 Message or valid path to X12 File'')"
    if "\<not> is_x12_data x" "\<forall>f. read_file fs (expand_path fs x) = Some f \<longrightarrow> \<not> is_x12_data f"
  proof -
    from that have "\<not> is_x12_file fs get_config x"
      by (auto simp: is_x12_file_def get_config_def py_read_def is_x12_data_def
          split: option.splits)
    with that show ?thesis by (simp add: enter_invalid_input)
  qed
  have b: "enter fs get_config x
      = Inl (if s = [] then ValueError ''Invalid X12Stream'' else IndexError)"
    if "open_stream fs get_config x = Inr s" "length s < 106" for s
    using that
    by (simp add: enter_def set_delimiters_short) (simp add: get_config_def py_read_def)
  from a b show ?thesis by auto
qed

lemmas enter_simps = enter_def open_stream_def is_x12_file_def no_files_def is_x12_data_def
  set_delimiters_def get_config_def py_read_def py_index_def example_isa_def
  example_isa_segment_def example_reader_def

text \<open>
  C3, evaluated where it fails. \<open>__enter__\<close> tests the header that it reads only for
  being empty; it never compares what is available with the configured header length, and
  \<open>_set_delimiters\<close> subscripts the header unguarded. A text that begins with \<open>ISA\<close> and
  has 38 characters, or only the 3 of the tag, is refused with \<open>IndexError\<close>, not with
  the \<open>ValueError\<close> that the docstring of \<open>__enter__\<close> announces for an invalid input and
  not with a fault of the header. With a configured header length of 200, a text of 111
  characters, fewer than the header length, is opened without a fault and its segments
  are produced. The half of the claim on the header tag holds (it is the
  \<open>ValueError\<close> of the lemmas above).
\<close>

theorem enter_truncated_header_not_refused:
  "enter no_files get_config ''ISA*00*          *00*          *ZZ*890069730~'' = Inl IndexError
   \<and> enter no_files get_config ''ISA'' = Inl IndexError
   \<and> length (example_isa @ ''HL*1~'') = 111
   \<and> enter no_files (get_config\<lparr>isa_segment_length := 200\<rparr>) (example_isa @ ''HL*1~'')
     = Inr ((example_reader (example_isa @ ''HL*1~''))
              \<lparr>config := get_config\<lparr>isa_segment_length := 200\<rparr>\<rparr>)
   \<and> segments ((example_reader (example_isa @ ''HL*1~''))
              \<lparr>config := get_config\<lparr>isa_segment_length := 200\<rparr>\<rparr>)
     = [example_isa_segment, ''HL*1'']"
  by (simp add: enter_simps segments_def segments_loop.simps py_rstrip_def)

lemma spec_segments_Nil: "spec_segments t [] = []"
  by (simp add: spec_segments.simps)

lemma spec_segments_no_term: "t \<notin> set a \<Longrightarrow> a \<noteq> [] \<Longrightarrow> spec_segments t a = [a]"
proof -
  assume a: "t \<notin> set a" "a \<noteq> []"
  then have d: "dropWhile (\<lambda>x. x \<noteq> t) a = []" by (auto simp: dropWhile_eq_Nil_conv)
  from a(2) show ?thesis by (subst spec_segments.simps) (simp add: d)
qed

lemma spec_segments_first:
  assumes "t \<notin> set a"
  shows "spec_segments t (a @ t # b) = a # spec_segments t b"
proof -
  from assms have d: "dropWhile (\<lambda>x. x \<noteq> t) (a @ t # b) = t # b"
    by (subst dropWhile_append2) auto
  from assms have k: "takeWhile (\<lambda>x. x \<noteq> t) (a @ t # b) = a"
    by (subst takeWhile_append2) auto
  show ?thesis by (subst spec_segments.simps) (simp add: d k)
qed

lemma py_split_no_term: "t \<notin> set a \<Longrightarrow> py_split [t] a = [a]"
  by (induction a) auto

lemma py_split_first: "t \<notin> set a \<Longrightarrow> py_split [t] (a @ t # b) = a # py_split [t] b"
  by (induction a) auto

lemma spec_segments_append:
  "spec_segments t (a @ t # b) = spec_segments t (a @ [t]) @ spec_segments t b"
proof (induction "length a" arbitrary: a rule: less_induct)
  case less
  show ?case
  proof (cases "t \<in> set a")
    case False
    then show ?thesis
      using spec_segments_first [of t a b] spec_segments_first [of t a "[]"]
      by (simp add: spec_segments_Nil)
  next
    case True
    then obtain a1 a2 where a: "a = a1 @ t # a2" and n: "t \<notin> set a1"
      by (auto dest: split_list_first)
    then have "length a2 < length a" by simp
    from less [OF this] a n show ?thesis
      using spec_segments_first [of t a1 "a2 @ t # b"] spec_segments_first [of t a1 "a2 @ [t]"]
      by simp
  qed
qed

lemma py_split_spec:
  "s \<noteq> [] \<Longrightarrow> last s \<noteq> t \<Longrightarrow> py_split [t] s = spec_segments t s"
proof (induction "length s" arbitrary: s rule: less_induct)
  case less
  show ?case
  proof (cases "t \<in> set s")
    case False
    with less.prems show ?thesis
      by (simp add: py_split_no_term spec_segments_no_term)
  next
    case True
    then obtain a b where s: "s = a @ t # b" and n: "t \<notin> set a"
      by (auto dest: split_list_first)
    with less.prems have b: "b \<noteq> []" "last b \<noteq> t" by auto
    from s have "length b < length s" by simp
    from less.hyps [OF this b] s n show ?thesis
      by (simp add: py_split_first spec_segments_first)
  qed
qed

lemma spec_segments_snoc:
  "a \<noteq> [] \<Longrightarrow> last a \<noteq> t \<Longrightarrow> spec_segments t (a @ [t]) = spec_segments t a"
proof (induction "length a" arbitrary: a rule: less_induct)
  case less
  show ?case
  proof (cases "t \<in> set a")
    case False
    with less.prems show ?thesis
      using spec_segments_first [of t a "[]"]
      by (simp add: spec_segments_no_term spec_segments_Nil)
  next
    case True
    then obtain a1 a2 where a: "a = a1 @ t # a2" and n: "t \<notin> set a1"
      by (auto dest: split_list_first)
    with less.prems have b: "a2 \<noteq> []" "last a2 \<noteq> t" by auto
    from a have "length a2 < length a" by simp
    from less.hyps [OF this b] a n show ?thesis
      using spec_segments_first [of t a1 "a2 @ [t]"] spec_segments_first [of t a1 a2]
      by simp
  qed
qed

lemma py_rstrip_last: "s \<noteq> [] \<Longrightarrow> last s \<noteq> t \<Longrightarrow> py_rstrip [t] s = s"
  by (cases s rule: rev_cases) (auto simp: py_rstrip_def)

lemma py_rstrip_snoc: "a \<noteq> [] \<Longrightarrow> last a \<noteq> t \<Longrightarrow> py_rstrip [t] (a @ [t]) = a"
  by (cases a rule: rev_cases) (auto simp: py_rstrip_def)

lemma chunk_segments:
  assumes ne: "buf \<noteq> []" and full: "[] \<notin> set (spec_segments t buf)"
  shows "py_split [t] (py_rstrip [t] buf) = spec_segments t buf"
proof (cases "last buf = t")
  case False
  with ne show ?thesis by (simp add: py_rstrip_last py_split_spec)
next
  case True
  with ne obtain a where buf: "buf = a @ [t]"
    by (cases buf rule: rev_cases) auto
  have a_ne: "a \<noteq> []"
  proof
    assume "a = []"
    with buf full spec_segments_first [of t "[]" "[]"] show False by simp
  qed
  have a_last: "last a \<noteq> t"
  proof
    assume "last a = t"
    with a_ne obtain a' where "a = a' @ [t]" by (cases a rule: rev_cases) auto
    with buf have "spec_segments t buf = spec_segments t (a' @ [t]) @ spec_segments t [t]"
      using spec_segments_append [of t a' "[t]"] by simp
    moreover have "spec_segments t [t] = [[]]"
      using spec_segments_first [of t "[]" "[]"] by (simp add: spec_segments_Nil)
    ultimately show False using full by simp
  qed
  from a_ne a_last buf show ?thesis
    by (simp add: py_rstrip_snoc py_split_spec spec_segments_snoc)
qed

lemma read_on_append: "read_on t b r = (b', r') \<Longrightarrow> b' @ r' = b @ r"
  by (induction r arbitrary: b) (auto split: if_splits)

lemma read_on_stops: "read_on t b r = (b', r') \<Longrightarrow> r' = [] \<or> last b' = t"
  by (induction r arbitrary: b) (auto split: if_splits)

lemma read_on_nonempty: "read_on t b r = (b', r') \<Longrightarrow> b \<noteq> [] \<Longrightarrow> b' \<noteq> []"
  by (induction r arbitrary: b) (auto split: if_splits)

lemma segments_loop_Nil: "segments_loop bs t [] = []"
  by (subst segments_loop.simps) (simp add: py_read_def)

lemma segments_loop_spec:
  assumes "bs \<noteq> 0"
  shows "[] \<notin> set (spec_segments t s) \<Longrightarrow> segments_loop bs t s = spec_segments t s"
proof (induction "length s" arbitrary: s rule: less_induct)
  case less
  show ?case
  proof (cases "s = []")
    case True
    then show ?thesis by (simp add: segments_loop_Nil spec_segments_Nil)
  next
    case False
    obtain buffer rest where rd: "py_read bs s = (buffer, rest)" by (cases "py_read bs s")
    obtain buffer' rest' where ex: "read_on t buffer rest = (buffer', rest')"
      by (cases "read_on t buffer rest")
    from rd False assms have bne: "buffer \<noteq> []" and cat: "buffer @ rest = s"
      by (auto simp: py_read_def split: if_splits)
    from ex bne have b'ne: "buffer' \<noteq> []" by (rule read_on_nonempty)
    from ex cat have cat': "buffer' @ rest' = s" by (simp add: read_on_append)
    from b'ne cat' have shorter: "length rest' < length s" by auto
    have loop: "segments_loop bs t s
        = py_split [t] (py_rstrip [t] buffer') @ segments_loop bs t rest'"
      using rd ex bne by (subst segments_loop.simps) simp
    show ?thesis
    proof (cases "rest' = []")
      case True
      with cat' have "buffer' = s" by simp
      with loop True less.prems b'ne show ?thesis
        by (simp add: segments_loop_Nil chunk_segments)
    next
      case False
      with ex read_on_stops have "last buffer' = t" by blast
      with b'ne obtain a where a: "buffer' = a @ [t]"
        by (cases buffer' rule: rev_cases) auto
      with cat' have split: "spec_segments t s = spec_segments t buffer' @ spec_segments t rest'"
        using spec_segments_append [of t a rest'] by auto
      with less.prems have f1: "[] \<notin> set (spec_segments t buffer')"
        and f2: "[] \<notin> set (spec_segments t rest')" by auto
      from less.hyps [OF shorter f2] chunk_segments [OF b'ne f1] loop split
      show ?thesis by simp
    qed
  qed
qed

text \<open>
  C7 fails as stated: \<open>rstrip\<close> removes every terminator at the end of a buffer, not one.
  An input that ends with an empty segment (two terminators in a row at the end) loses
  that segment: the reader yields two segments where the stream holds three.
\<close>

theorem segments_drops_empty_segment:
  "enter no_files get_config (example_isa @ ''HL*1**20*1~~'')
     = Inr (example_reader (example_isa @ ''HL*1**20*1~~''))
   \<and> segments (example_reader (example_isa @ ''HL*1**20*1~~''))
     = [example_isa_segment, ''HL*1**20*1'']
   \<and> spec_segments (CHR ''~'') (example_isa @ ''HL*1**20*1~~'')
     = [example_isa_segment, ''HL*1**20*1'', []]"
  by (simp add: enter_simps segments_def segments_loop.simps py_rstrip_def
      spec_segments.simps)

text \<open>
  Whether an empty segment inside the stream is yielded depends on where the buffers end:
  the same text read with a buffer of 107 characters loses the empty segment that the
  default buffer size yields.
\<close>

lemma segments_depend_on_buffer_size:
  "segments_loop 1024000 (CHR ''~'') (example_isa @ ''~HL*1~'')
     = [example_isa_segment, [], ''HL*1'']
   \<and> segments_loop 107 (CHR ''~'') (example_isa @ ''~HL*1~'')
     = [example_isa_segment, ''HL*1'']"
  by (simp add: example_isa_def example_isa_segment_def segments_loop.simps py_read_def
      py_rstrip_def)

text \<open>
  C7, amended. For every input whose header is valid and whose stream holds no empty
  segment, and for every buffer size other than 0, \<open>segments()\<close> yields every
  terminator-delimited segment exactly once and in order, wherever the buffers end;
  nothing is yielded for a final terminator, and text after the last terminator is
  yielded as a final segment.
\<close>

theorem segments_yields_all:
  assumes "enter fs cfg x = Inr r" and "x12_reader_buffer_size cfg \<noteq> 0"
    and "[] \<notin> set (spec_segments (segment_terminator r) (x12_stream r))"
  shows "segments r = spec_segments (segment_terminator r) (x12_stream r)"
proof -
  from assms(1) have "config r = cfg"
    by (auto simp: enter_def split: sum.splits if_splits prod.splits)
  with assms(2,3) show ?thesis
    by (simp add: segments_def segments_loop_spec)
qed

theorem segments_yields_all_witness:
  "segments (example_reader (example_isa @ ''HL*1**20*1~NM1*PR*2~TRN*1*93175''))
     = [example_isa_segment, ''HL*1**20*1'', ''NM1*PR*2'', ''TRN*1*93175'']"
proof -
  have e: "enter no_files get_config (example_isa @ ''HL*1**20*1~NM1*PR*2~TRN*1*93175'')
      = Inr (example_reader (example_isa @ ''HL*1**20*1~NM1*PR*2~TRN*1*93175''))"
    by (simp add: enter_simps)
  have b: "x12_reader_buffer_size get_config \<noteq> 0" by (simp add: get_config_def)
  have s: "spec_segments (CHR ''~'') (example_isa @ ''HL*1**20*1~NM1*PR*2~TRN*1*93175'')
      = [example_isa_segment, ''HL*1**20*1'', ''NM1*PR*2'', ''TRN*1*93175'']"
    by (simp add: example_isa_def example_isa_segment_def spec_segments.simps)
  have n: "[] \<notin> set (spec_segments
      (segment_terminator (example_reader (example_isa @ ''HL*1**20*1~NM1*PR*2~TRN*1*93175'')))
      (x12_stream (example_reader (example_isa @ ''HL*1**20*1~NM1*PR*2~TRN*1*93175''))))"
    using s by (simp add: example_reader_def example_isa_segment_def)
  from segments_yields_all [OF e b n] s show ?thesis
    by (simp add: example_reader_def)
qed

lemma py_join_no_term:
  "\<forall>e\<in>set seg. t \<notin> set e \<Longrightarrow> sep \<noteq> t \<Longrightarrow> t \<notin> set (py_join [sep] seg)"
  by (induction "[sep]" seg rule: py_join.induct) auto

lemma py_join_nonempty: "seg \<noteq> [] \<Longrightarrow> seg \<noteq> [[]] \<Longrightarrow> py_join [sep] seg \<noteq> []"
  by (induction "[sep]" seg rule: py_join.induct) auto

lemma py_split_join:
  "seg \<noteq> [] \<Longrightarrow> \<forall>e\<in>set seg. sep \<notin> set e \<Longrightarrow> py_split [sep] (py_join [sep] seg) = seg"
proof (induction "[sep]" seg rule: py_join.induct)
  case 1
  then show ?case by simp
next
  case (2 x)
  then show ?case by (simp add: py_split_no_term)
next
  case (3 x y ys)
  then have "py_split [sep] (py_join [sep] (y # ys)) = y # ys" by simp
  with 3 show ?case
    using py_split_first [of sep x "py_join [sep] (y # ys)"] by simp
qed

lemma spec_segments_concat:
  "\<forall>x\<in>set xs. t \<notin> set x \<Longrightarrow> spec_segments t (concat (map (\<lambda>x. x @ [t]) xs)) = xs"
proof (induction xs)
  case Nil
  then show ?case by (simp add: spec_segments_Nil)
next
  case (Cons x xs)
  then show ?case
    using spec_segments_first [of t x "concat (map (\<lambda>x. x @ [t]) xs)"] by simp
qed

text \<open>
  C8 fails as stated: the format has no escaping, so an element that contains the
  element separator comes back as two elements.
\<close>

theorem round_trip_splits_element:
  "encode example_isa (CHR ''*'') (CHR ''~'') [[''A*B'']] = example_isa @ ''A*B~''
   \<and> enter no_files get_config (example_isa @ ''A*B~'')
     = Inr (example_reader (example_isa @ ''A*B~''))
   \<and> segments (example_reader (example_isa @ ''A*B~'')) = [example_isa_segment, ''A*B'']
   \<and> elements ''A*B'' [element_separator (example_reader (example_isa @ ''A*B~''))]
     = Inr [''A'', ''B'']"
  by (simp add: encode_def enter_simps segments_def segments_loop.simps py_rstrip_def
      elements_def)

text \<open>
  C8, amended. Take a 106-character header that begins with \<open>ISA\<close>, carries the element
  separator at offset 3 and the segment terminator at offset 105 and nowhere before, and a
  list of segments in which every segment has at least one element, is not the single
  empty element, and has no element containing the separator or the terminator. Encoding
  the list after the header and decoding it (the text not naming a file, the buffer size
  not 0) with \<open>segments()\<close> followed by \<open>elements()\<close> gives the header's segment followed
  by the original segments, element for element.
\<close>

theorem round_trip:
  assumes len: "length header = 106" and tag: "take 3 header = ''ISA''"
    and sep: "header ! 3 = sep" and trm: "header ! 105 = trm"
    and once: "trm \<notin> set (take 105 header)"
    and segs: "\<forall>seg\<in>set segs. seg \<noteq> [] \<and> seg \<noteq> [[]]
                 \<and> (\<forall>e\<in>set seg. sep \<notin> set e \<and> trm \<notin> set e)"
    and bs: "bs \<noteq> 0"
    and nofile: "read_file fs (expand_path fs (encode header sep trm segs)) = None"
  shows "\<exists>r. enter fs (get_config\<lparr>x12_reader_buffer_size := bs\<rparr>) (encode header sep trm segs)
                = Inr r
           \<and> element_separator r = sep \<and> segment_terminator r = trm
           \<and> map (\<lambda>s. elements s [element_separator r]) (segments r)
               = map Inr (py_split [sep] (take 105 header) # segs)"
proof -
  define cfg where "cfg = get_config\<lparr>x12_reader_buffer_size := bs\<rparr>"
  define body where "body = concat (map (\<lambda>seg. py_join [sep] seg @ [trm]) segs)"
  define x where "x = encode header sep trm segs"
  define h where "h = take 105 header"
  have x: "x = header @ body" by (simp add: x_def body_def encode_def)
  from len trm have header: "header = h @ [trm]"
    using take_Suc_conv_app_nth [of 105 header] by (simp add: h_def)
  from len have rd: "py_read (isa_segment_length cfg) x = (header, body)"
    by (simp add: cfg_def get_config_def py_read_def x)
  from len sep trm have idx: "py_index header 3 = Inr sep" "py_index header 82 = Inr (header ! 82)"
    "py_index header 105 = Inr trm"
    by (simp_all add: py_index_def)
  from len have "take 105 header ! 3 = header ! 3" "3 < length (take 105 header)" by simp_all
  then have "header ! 3 \<in> set (take 105 header)" by (metis nth_mem)
  with sep once have sep_term: "sep \<noteq> trm" by auto
  from tag len have h_ne: "h \<noteq> []" by (auto simp: h_def)
  from tag len have data: "is_x12_data x"
    by (auto simp: is_x12_data_def x)
  from nofile have nf: "\<not> is_x12_file fs cfg x"
    by (simp add: is_x12_file_def x_def)
  define r where "r = \<lparr>x12_input = x, config = cfg, x12_stream = x,
      element_separator = sep, repetition_separator = header ! 82, segment_terminator = trm\<rparr>"
  from len have hne: "header \<noteq> []" by auto
  have ent: "enter fs cfg x = Inr r"
    using nf data rd idx hne
    by (simp add: enter_def open_stream_def set_delimiters_def r_def)
      (simp add: cfg_def get_config_def)
  define xs where "xs = map (py_join [sep]) segs"
  have body: "body = concat (map (\<lambda>s. s @ [trm]) xs)"
    by (simp add: body_def xs_def comp_def)
  have xs_term: "\<forall>s\<in>set xs. trm \<notin> set s"
  proof
    fix s assume "s \<in> set xs"
    then obtain seg where "seg \<in> set segs" and s: "s = py_join [sep] seg"
      by (auto simp: xs_def)
    with segs have "\<forall>e\<in>set seg. trm \<notin> set e" by blast
    from py_join_no_term [OF this sep_term] s show "trm \<notin> set s" by simp
  qed
  have xs_ne: "[] \<notin> set xs"
  proof
    assume "[] \<in> set xs"
    then obtain seg where "seg \<in> set segs" and s: "py_join [sep] seg = []"
      by (auto simp: xs_def)
    with segs have "seg \<noteq> []" "seg \<noteq> [[]]" by blast+
    from py_join_nonempty [OF this] s show False by simp
  qed
  from once have once': "trm \<notin> set h" by (simp add: h_def)
  from x header have x': "x = h @ trm # body" by simp
  have spec: "spec_segments trm x = h # xs"
    unfolding x' using spec_segments_first [OF once', of body] xs_term
    by (simp add: body spec_segments_concat)
  with h_ne xs_ne have "[] \<notin> set (spec_segments trm x)" by auto
  with bs have seg: "segments r = h # xs"
    by (simp add: segments_def r_def cfg_def segments_loop_spec spec)
  have el: "map (py_split [sep]) xs = segs"
  proof -
    have "py_split [sep] (py_join [sep] seg) = seg" if "seg \<in> set segs" for seg
    proof -
      from that segs have "seg \<noteq> []" "\<forall>e\<in>set seg. sep \<notin> set e" by blast+
      then show ?thesis by (rule py_split_join)
    qed
    then show ?thesis by (simp add: xs_def map_idI)
  qed
  have "map (\<lambda>s. Inr (py_split [sep] s)) xs = map Inr (map (py_split [sep]) xs)"
    by simp
  with el have "map (\<lambda>s. Inr (py_split [sep] s)) xs = map Inr segs" by simp
  with seg have "map (\<lambda>s. elements s [element_separator r]) (segments r)
      = map Inr (py_split [sep] h # segs)"
    by (simp add: elements_def r_def)
  with ent show ?thesis
    unfolding x_def cfg_def h_def by (auto simp: r_def)
qed

theorem round_trip_witness:
  "\<exists>r. enter no_files (get_config\<lparr>x12_reader_buffer_size := 8\<rparr>)
          (encode example_isa (CHR ''*'') (CHR ''~'')
             [[''HL'', ''1'', [], ''20'', ''1''], [''NM1'', ''PR'']]) = Inr r
     \<and> tl (map (\<lambda>s. elements s [element_separator r]) (segments r))
         = [Inr [''HL'', ''1'', [], ''20'', ''1''], Inr [''NM1'', ''PR'']]"
proof -
  have len: "length example_isa = 106"
    and tag: "take 3 example_isa = ''ISA''"
    and sep: "example_isa ! 3 = CHR ''*''"
    and trm: "example_isa ! 105 = CHR ''~''"
    and once: "CHR ''~'' \<notin> set (take 105 example_isa)"
    by (simp_all add: example_isa_def example_isa_segment_def)
  have segs: "\<forall>seg\<in>set [[''HL'', ''1'', [], ''20'', ''1''], [''NM1'', ''PR'']].
      seg \<noteq> [] \<and> seg \<noteq> [[]]
      \<and> (\<forall>e\<in>set seg. CHR ''*'' \<notin> set e \<and> CHR ''~'' \<notin> set e)"
    by simp
  have bs: "(8::int) \<noteq> 0" by simp
  have nofile: "read_file no_files (expand_path no_files (encode example_isa (CHR ''*'')
      (CHR ''~'') [[''HL'', ''1'', [], ''20'', ''1''], [''NM1'', ''PR'']])) = None"
    by (simp add: no_files_def)
  from round_trip [where fs = no_files, OF len tag sep trm once segs bs nofile]
  show ?thesis
    by auto
qed

section \<open>Properties of the eligibility translation\<close>

lemmas fixture_simps = example_model_def model_without_trn_def one_model_reader_def
  two_model_reader_def no_model_reader_def no_trn_reader_def example_clock_def
  example_post_def analyzed_processor_def other_message_def matching_message_def
  example_template_def example_env_def all_stages_def example_analyzer_def
  failing_analyzer_def example_metadata_def

lemmas workflow_simps = analyze_def analyze_impl_def enrich_def enrich_impl_def validate_def
  validate_impl_def transmit_def transmit_impl_def complete_def complete_impl_def
  transition_call_def transition_call_async_def new_processor_def
  EdiProcessingMetrics_init_def create_edi_result_def

lemmas translate_simps = eligibility_translate_def eligibility_translate_impl_def
  translate_statements_def create_request_def get_patient_reference_def
  get_insurer_reference_def get_coverage_reference_def py_index_def

text \<open>The paths that one iteration of the translation subscripts along.\<close>

lemma consumed_paths_eq:
  "consumed_paths =
    [[KStr ''loop_2000a'', KIdx 0, KStr ''loop_2000b'', KIdx 0, KStr ''loop_2000c'', KIdx 0,
      KStr ''loop_2100c'', KStr ''nm1_segment''],
     [KStr ''loop_2000a'', KIdx 0, KStr ''loop_2000b'', KIdx 0, KStr ''loop_2000c'', KIdx 0,
      KStr ''loop_2100c'', KStr ''nm1_segment'', KStr ''name_last_or_organization_name''],
     [KStr ''loop_2000a'', KIdx 0, KStr ''loop_2000b'', KIdx 0, KStr ''loop_2000c'', KIdx 0,
      KStr ''loop_2100c'', KStr ''nm1_segment'', KStr ''name_first''],
     [KStr ''loop_2000a'', KIdx 0, KStr ''loop_2000b'', KIdx 0, KStr ''loop_2000c'', KIdx 0,
      KStr ''loop_2100c'', KStr ''nm1_segment'', KStr ''identification_code''],
     [KStr ''loop_2000a'', KIdx 0, KStr ''loop_2000b'', KIdx 0, KStr ''loop_2000c'', KIdx 0,
      KStr ''trn_segment'', KIdx 0],
     [KStr ''loop_2000a'', KIdx 0, KStr ''loop_2000b'', KIdx 0, KStr ''loop_2000c'', KIdx 0,
      KStr ''trn_segment'', KIdx 0, KStr ''originating_company_identifier''],
     [KStr ''loop_2000a'', KIdx 0, KStr ''loop_2100a'', KStr ''nm1_segment''],
     [KStr ''loop_2000a'', KIdx 0, KStr ''loop_2100a'', KStr ''nm1_segment'',
      KStr ''name_last_or_organization_name''],
     [KStr ''loop_2000a'', KIdx 0, KStr ''loop_2100a'', KStr ''nm1_segment'',
      KStr ''identification_code''],
     [KStr ''loop_2000a'', KIdx 0, KStr ''loop_2000b'', KIdx 0, KStr ''loop_2100b'',
      KStr ''nm1_segment''],
     [KStr ''loop_2000a'', KIdx 0, KStr ''loop_2000b'', KIdx 0, KStr ''loop_2100b'',
      KStr ''nm1_segment'', KStr ''name_last_or_organization_name''],
     [KStr ''loop_2000a'', KIdx 0, KStr ''loop_2000b'', KIdx 0, KStr ''loop_2100b'',
      KStr ''nm1_segment'', KStr ''identification_code'']]"
  by (simp add: consumed_paths_def translate_statements_def)



text \<open>
  C10, evaluated where it fails. The request, the elapsed time and the \<open>TRANSLATE\<close>
  entry are inside the loop over the models: an input that parses into two models appends
  \<open>TRANSLATE\<close> twice (and builds the request twice), and an input that parses into no
  model appends nothing and builds no request, although the call returns and the state
  becomes \<open>translated\<close>.
\<close>

theorem translate_logs_once_per_model:
  "fst (eligibility_translate two_model_reader example_clock ''2021-03-01'' analyzed_processor)
     = Return ()
   \<and> operations (snd (eligibility_translate two_model_reader example_clock ''2021-03-01''
        analyzed_processor)) = [ANALYZE, TRANSLATE, TRANSLATE]
   \<and> fst (eligibility_translate no_model_reader example_clock ''2021-03-01'' analyzed_processor)
     = Return ()
   \<and> state (snd (eligibility_translate no_model_reader example_clock ''2021-03-01''
        analyzed_processor)) = Translated
   \<and> operations (snd (eligibility_translate no_model_reader example_clock ''2021-03-01''
        analyzed_processor)) = [ANALYZE]
   \<and> transmit_data (snd (eligibility_translate no_model_reader example_clock ''2021-03-01''
        analyzed_processor)) = PNone"
  by (simp add: translate_simps fixture_simps workflow_simps)

section \<open>Properties of the response callback\<close>

text \<open>
  C9. A message whose correlation id, \<open>identifier[0].value\<close> of the decoded payload,
  differs from the transaction id of the processor is ignored: the callback returns
  without a fault, the processor is the one it was (so \<open>message_received\<close> keeps its
  value, false while no response has matched, and no other attribute changes), and no
  template has been rewritten.
\<close>

theorem callback_ignores_other_id:
  assumes "py_path message [KStr ''identifier'', KIdx 0, KStr ''value''] = Inr ident"
    and "\<not> py_eq ident (transaction_id self)"
  shows "nats_coverage_response_callback fs template_file message self = (Return (), self, None)"
  using assms by (simp add: nats_coverage_response_callback_def)

theorem callback_ignores_other_id_witness:
  "transaction_id translated_processor = PStr ''9800000004''
   \<and> message_received translated_processor = False
   \<and> nats_coverage_response_callback no_files (Some example_template) other_message
        translated_processor = (Return (), translated_processor, None)"
proof -
  have t: "transaction_id translated_processor = PStr ''9800000004''"
    "message_received translated_processor = False"
    by (simp_all add: translated_processor_def translate_simps fixture_simps workflow_simps)
  have a: "py_path other_message [KStr ''identifier'', KIdx 0, KStr ''value'']
      = Inr (PStr ''0000000000'')"
    by (simp add: other_message_def py_index_def)
  have b: "\<not> py_eq (PStr ''0000000000'') (transaction_id translated_processor)"
    by (simp add: t)
  from callback_ignores_other_id [OF a b, of no_files "Some example_template"] t
  show ?thesis by simp
qed

section \<open>Properties of the command line run\<close>

lemmas cli_simps = process_edi_def stages_def and_then_def optional_def
  start_nats_coverage_eligibility_subscriber_def stop_nats_coverage_eligibility_subscriber_def
  transmit_receiving_def nats_coverage_response_callback_def rewrite_elements_def
  elements_def py_rstrip_def segments_def segments_loop.simps

text \<open>
  C5 fails as stated: \<open>process_edi\<close> closes the client on one path only, after the wait
  for the response. A stage that raises ends the run with the fault, and the client is
  still connected and subscribed. Here the analyzer raises.
\<close>

theorem process_edi_fault_keeps_subscription:
  "fst (process_edi failing_env all_stages)
     = Fault (CollaboratorError ''Unable to determine message type'')
   \<and> map_option nats_client (snd (process_edi failing_env all_stages))
     = Some (Some \<lparr>is_connected = True, is_closed = False,
                    subscriptions = [''eligibility.EVENTS'']\<rparr>)"
  by (simp add: failing_env_def cli_simps fixture_simps workflow_simps)

text \<open>
  C5, amended. Every run of \<open>process_edi\<close> that returns a result has closed the client,
  which ends its subscription, before \<open>complete\<close>: at the end the state is \<open>completed\<close>
  and the client is closed, disconnected and without subscriptions.
\<close>

theorem process_edi_returns_released:
  assumes "fst (process_edi env kw) = Finished result"
  shows "\<exists>p client. snd (process_edi env kw) = Some p \<and> state p = Completed
           \<and> nats_client p = Some client
           \<and> is_closed client \<and> \<not> is_connected client \<and> subscriptions client = []"
proof -
  from assms obtain lines where f: "env_edi_file env = Some lines"
    by (cases "env_edi_file env") (auto simp: process_edi_def)
  obtain r1 p1 where st: "stages env kw (new_processor (py_join '','' lines)) = (r1, p1)"
    by (cases "stages env kw (new_processor (py_join '','' lines))")
  from assms f st have r1: "r1 = Return ()"
    by (cases r1) (auto simp: process_edi_def)
  obtain b p2 where w: "wait_for_message (env_files env) (env_template_file env)
      (env_inbound_wait env) p1 = (b, p2)"
    by (cases "wait_for_message (env_files env) (env_template_file env)
      (env_inbound_wait env) p1")
  from assms f st r1 w have b: "b" by (cases b) (auto simp: process_edi_def)
  from assms f st r1 w b obtain client where c: "nats_client p2 = Some client"
    by (cases "nats_client p2")
      (auto simp: process_edi_def stop_nats_coverage_eligibility_subscriber_def)
  define p3 where "p3 = p2\<lparr>nats_client :=
      Some (client\<lparr>is_connected := False, is_closed := True, subscriptions := []\<rparr>)\<rparr>"
  from c have stop: "stop_nats_coverage_eligibility_subscriber p2 = (Return (), p3)"
    by (simp add: stop_nats_coverage_eligibility_subscriber_def p3_def)
  from assms f st r1 w b stop have legal: "state p3 \<in> set (sources T_complete)"
    by (auto simp: process_edi_def complete_def transition_call_def split: if_splits)
  then have "complete p3 = (Return (create_edi_result (p3\<lparr>operations := operations p3 @ [COMPLETE]\<rparr>)),
      p3\<lparr>operations := operations p3 @ [COMPLETE], state := Completed\<rparr>)"
    by (simp add: complete_def transition_call_def complete_impl_def Let_def)
  with f st r1 w b stop have "snd (process_edi env kw)
      = Some (p3\<lparr>operations := operations p3 @ [COMPLETE], state := Completed\<rparr>)"
    by (simp add: process_edi_def)
  then show ?thesis by (simp add: p3_def)
qed

lemma example_run:
  "fst (process_edi example_env all_stages)
     = Finished
        \<lparr>metadata = Some example_metadata,
         result_metrics = Some \<lparr>analyzeTime = 5, enrichTime = 1, validateTime = 1,
            translateTime = 2, transmitTime = 7, totalTime = 16\<rparr>,
         inputMessage = example_isa,
         result_operations = [ANALYZE, ENRICH, VALIDATE, TRANSLATE, TRANSMIT, COMPLETE],
         errors = []\<rparr>"
  by (simp add: cli_simps fixture_simps workflow_simps translate_simps enter_simps)

theorem process_edi_returns_released_witness:
  "\<exists>p client. snd (process_edi example_env all_stages) = Some p \<and> state p = Completed
      \<and> nats_client p = Some client
      \<and> is_closed client \<and> \<not> is_connected client \<and> subscriptions client = []"
  using process_edi_returns_released [OF example_run] .

end
